theory Spec2Isabelle
  imports Complex_Main "HOL-Library.Multiset"
begin

section \<open>Data model of dpdispatcher/submission.py\<close>

text \<open>
  Modelled from the spec: the enumeration \<open>JobStatus\<close> is imported from
  \<^verbatim>\<open>dpdispatcher.JobStatus\<close>, which is not part of the source file; its members are the
  seven states the glossary lists.
\<close>

datatype JobStatus =
  unsubmitted | waiting | running | terminated | finished | completing | unknown

text \<open>
  The attribute \<^verbatim>\<open>job_state\<close> is dynamically typed: \<^verbatim>\<open>None\<close> after construction, a
  \<open>JobStatus\<close> member after a refresh, and whatever the JSON file held after a recovery
  (\<^verbatim>\<open>json.dumps(..., default=str)\<close> writes an enum member as its \<^verbatim>\<open>str\<close>, \<^verbatim>\<open>None\<close> as
  \<^verbatim>\<open>null\<close>). A string never compares equal to an enum member.
\<close>

datatype state_val = NoState | Status JobStatus | StatusStr string

fun JobStatus_str :: "JobStatus \<Rightarrow> string" where
  "JobStatus_str unsubmitted = ''JobStatus.unsubmitted''"
| "JobStatus_str waiting = ''JobStatus.waiting''"
| "JobStatus_str running = ''JobStatus.running''"
| "JobStatus_str terminated = ''JobStatus.terminated''"
| "JobStatus_str finished = ''JobStatus.finished''"
| "JobStatus_str completing = ''JobStatus.completing''"
| "JobStatus_str unknown = ''JobStatus.unknown''"

record Task =
  command :: string
  task_work_path :: string
  forward_files :: "string list"
  backward_files :: "string list"
  outlog :: string
  errlog :: string
  task_need_resources :: rat

record Resources =
  number_node :: int
  cpu_per_node :: int
  gpu_per_node :: int
  queue_name :: string
  group_size :: int
  if_cuda_multi_devices :: bool
  in_use :: int

text \<open>
  The dictionaries built by the \<^verbatim>\<open>serialize\<close> methods have fixed keys in a fixed insertion
  order; they are tuples of the values in that order. A job dictionary
  \<^verbatim>\<open>{job_hash: content}\<close> is a list of key/value pairs, since \<^verbatim>\<open>Job.deserialize\<close> checks
  the number of its keys. The runtime triple \<^verbatim>\<open>(job_state, job_id, fail_count)\<close> of a job
  content is present only in a non-static serialization.
\<close>

type_synonym task_dict =
  "string \<times> string \<times> string list \<times> string list \<times> string \<times> string \<times> rat"
type_synonym resources_dict = "int \<times> int \<times> int \<times> string \<times> int \<times> bool"
type_synonym runtime_info = "state_val \<times> string \<times> int"
type_synonym job_content_dict = "task_dict list \<times> resources_dict \<times> runtime_info option"
type_synonym job_dict = "(string \<times> job_content_dict) list"
type_synonym submission_dict =
  "string \<times> resources_dict \<times> string list \<times> string list \<times> job_dict list"

record Job =
  job_task_list :: "Task list"
  job_resources :: Resources
  job_state :: state_val
  job_id :: string
  fail_count :: int
  job_hash :: string
  script_file_name :: string

record Submission =
  work_base :: string
  resources :: Resources
  forward_common_files :: "string list"
  backward_common_files :: "string list"
  submission_hash :: string
  belonging_tasks :: "Task list"
  belonging_jobs :: "Job list"

text \<open>
  The exceptions of the file. A message built with \<^verbatim>\<open>str.format(job=self)\<close> carries the
  job's \<^verbatim>\<open>repr\<close>, which is its non-static serialization (keyed by the job hash).
\<close>

datatype error =
  RuntimeError string
  | JobRuntimeError string job_dict
  | KeyError string
  | IndexError

text \<open>
  \<^verbatim>\<open>sha1(str(d).encode('utf-8')).hexdigest()\<close> is library code (hashlib and the \<^verbatim>\<open>str\<close> of
  a dictionary); it is a parameter of the model, one function for each of the two kinds
  of dictionary it is applied to.
\<close>

record hashing =
  sha1_job :: "task_dict list \<times> resources_dict \<Rightarrow> string"
  sha1_submission :: "submission_dict \<Rightarrow> string"

text \<open>
  The pseudo-random generator of Python's \<^verbatim>\<open>random\<close> module is library code as well:
  \<open>seed\<close> is the generator state \<^verbatim>\<open>random.seed\<close> installs, \<open>randbelow n\<close> draws the next
  integer below \<open>n\<close> and advances the state.
\<close>

record 'g Random =
  seed :: "int \<Rightarrow> 'g"
  randbelow :: "nat \<Rightarrow> 'g \<Rightarrow> nat \<times> 'g"

section \<open>Resources and Task\<close>

definition Resources_init ::
  "int \<Rightarrow> int \<Rightarrow> int \<Rightarrow> string \<Rightarrow> int \<Rightarrow> bool \<Rightarrow> error + Resources" where
  "Resources_init nn cpn gpn qn gs cuda =
     (if cuda \<and> gpn < 1 then
        Inl (RuntimeError
          ''gpu_per_node can not be smaller than 1 when if_cuda_multi_devices is True'')
      else if cuda \<and> nn \<noteq> 1 then
        Inl (RuntimeError ''number_node must be 1 when if_cuda_multi_devices is True'')
      else Inr \<lparr>number_node = nn, cpu_per_node = cpn, gpu_per_node = gpn, queue_name = qn,
        group_size = gs, if_cuda_multi_devices = cuda, in_use = 0\<rparr>)"

definition Resources_serialize :: "Resources \<Rightarrow> resources_dict" where
  "Resources_serialize r =
     (number_node r, cpu_per_node r, gpu_per_node r, queue_name r, group_size r,
      if_cuda_multi_devices r)"

text \<open>
  \<^verbatim>\<open>Resources.deserialize\<close> on a dictionary without the key \<^verbatim>\<open>slurm_sbatch_dict\<close> (the
  Slurm subclass lives in another module) calls the constructor with the entries.
\<close>

definition Resources_deserialize :: "resources_dict \<Rightarrow> error + Resources" where
  "Resources_deserialize d =
     (case d of (nn, cpn, gpn, qn, gs, cuda) \<Rightarrow> Resources_init nn cpn gpn qn gs cuda)"

definition Task_serialize :: "Task \<Rightarrow> task_dict" where
  "Task_serialize t =
     (command t, task_work_path t, forward_files t, backward_files t, outlog t, errlog t,
      task_need_resources t)"

definition Task_deserialize :: "task_dict \<Rightarrow> Task" where
  "Task_deserialize d =
     (case d of (c, p, ff, bf, ol, el, tnr) \<Rightarrow>
        \<lparr>command = c, task_work_path = p, forward_files = ff, backward_files = bf,
         outlog = ol, errlog = el, task_need_resources = tnr\<rparr>)"

section \<open>Job: construction and serialization\<close>

definition Job_serialize :: "hashing \<Rightarrow> bool \<Rightarrow> Job \<Rightarrow> job_dict" where
  "Job_serialize H if_static j =
     (let tds = map Task_serialize (job_task_list j);
          rd = Resources_serialize (job_resources j);
          jh = sha1_job H (tds, rd)
      in [(jh, (tds, rd,
             if \<not> if_static then Some (job_state j, job_id j, fail_count j) else None))])"

definition Job_get_hash :: "hashing \<Rightarrow> Job \<Rightarrow> string" where
  "Job_get_hash H j = (case Job_serialize H True j of (k, _) # _ \<Rightarrow> k | [] \<Rightarrow> [])"

definition Job_init :: "hashing \<Rightarrow> Task list \<Rightarrow> Resources \<Rightarrow> Job" where
  "Job_init H task_list r =
     (let j = \<lparr>job_task_list = task_list, job_resources = r, job_state = NoState, job_id = [],
                fail_count = 0, job_hash = [], script_file_name = []\<rparr>;
          jh = Job_get_hash H j
      in j\<lparr>job_hash := jh, script_file_name := jh @ ''.sub''\<rparr>)"

definition Job_eq :: "hashing \<Rightarrow> Job \<Rightarrow> Job \<Rightarrow> bool" where
  "Job_eq H a b = (Job_serialize H True a = Job_serialize H True b)"

definition Job_deserialize :: "hashing \<Rightarrow> job_dict \<Rightarrow> error + Job" where
  "Job_deserialize H jd =
     (if length jd \<noteq> 1 then
        Inl (JobRuntimeError
          ''json file may be broken, len(job_dict.keys()) must be 1. {job_dict}'' jd)
      else
        (case jd of
           [] \<Rightarrow> Inl IndexError
         | (jh, (tds, rd, rt)) # _ \<Rightarrow>
             (case Resources_deserialize rd of
                Inl err \<Rightarrow> Inl err
              | Inr r \<Rightarrow>
                  (let job = Job_init H (map Task_deserialize tds) r in
                   case rt of
                     None \<Rightarrow> Inl (KeyError ''job_state'')
                   | Some (st, jid, fc) \<Rightarrow>
                       Inr (job\<lparr>job_state := st, job_id := jid, fail_count := fc\<rparr>)))))"

fun Job_deserialize_list :: "hashing \<Rightarrow> job_dict list \<Rightarrow> error + Job list" where
  "Job_deserialize_list H [] = Inr []"
| "Job_deserialize_list H (jd # jds) =
     (case Job_deserialize H jd of
        Inl err \<Rightarrow> Inl err
      | Inr j \<Rightarrow>
          (case Job_deserialize_list H jds of
             Inl err \<Rightarrow> Inl err
           | Inr js \<Rightarrow> Inr (j # js)))"

section \<open>Submission: serialization, equality, hash, registration\<close>

definition Submission_serialize :: "hashing \<Rightarrow> bool \<Rightarrow> Submission \<Rightarrow> submission_dict" where
  "Submission_serialize H if_static s =
     (work_base s, Resources_serialize (resources s), forward_common_files s,
      backward_common_files s, map (Job_serialize H if_static) (belonging_jobs s))"

definition Submission_eq :: "hashing \<Rightarrow> Submission \<Rightarrow> Submission \<Rightarrow> bool" where
  "Submission_eq H s other =
     (Submission_serialize H True s = Submission_serialize H True other)"

definition get_hash :: "hashing \<Rightarrow> Submission \<Rightarrow> string" where
  "get_hash H s = sha1_submission H (Submission_serialize H True s)"

text \<open>
  Both registration methods build their message with
  \<^verbatim>\<open>"... {self}".format(self)\<close>: the template names the field \<^verbatim>\<open>self\<close> and the object is
  passed positionally, so \<^verbatim>\<open>str.format\<close> raises \<^verbatim>\<open>KeyError('self')\<close> while the argument of
  \<^verbatim>\<open>RuntimeError\<close> is still being evaluated.
\<close>

definition register_task :: "Submission \<Rightarrow> Task \<Rightarrow> error + Submission" where
  "register_task s task =
     (if belonging_jobs s \<noteq> [] then Inl (KeyError ''self'')
      else Inr (s\<lparr>belonging_tasks := belonging_tasks s @ [task]\<rparr>))"

definition register_task_list :: "Submission \<Rightarrow> Task list \<Rightarrow> error + Submission" where
  "register_task_list s task_list =
     (if belonging_jobs s \<noteq> [] then Inl (KeyError ''self'')
      else Inr (s\<lparr>belonging_tasks := belonging_tasks s @ task_list\<rparr>))"

section \<open>generate_jobs\<close>

text \<open>
  \<^verbatim>\<open>random.shuffle(x)\<close>: for \<open>i\<close> from \<open>len(x) - 1\<close> down to \<open>1\<close>, draw \<open>j\<close> below \<open>i + 1\<close>
  and exchange \<open>x[i]\<close> and \<open>x[j]\<close>. An index outside the list raises.
\<close>

fun shuffle_from ::
  "(nat \<Rightarrow> 'g \<Rightarrow> nat \<times> 'g) \<Rightarrow> nat \<Rightarrow> 'a list \<Rightarrow> 'g \<Rightarrow> error + ('a list \<times> 'g)" where
  "shuffle_from rb 0 x g = Inr (x, g)"
| "shuffle_from rb (Suc k) x g =
     (let i = Suc k; (j, g') = rb (i + 1) g in
      if i < length x \<and> j < length x
      then shuffle_from rb k (x[i := x ! j, j := x ! i]) g'
      else Inl IndexError)"

definition shuffle :: "'g Random \<Rightarrow> 'a list \<Rightarrow> 'g \<Rightarrow> error + ('a list \<times> 'g)" where
  "shuffle R x g = shuffle_from (randbelow R) (length x - 1) x g"

text \<open>\<^verbatim>\<open>range(0, n, step)\<close> for a positive step, and the list of slices taken at its values.\<close>

definition range_step :: "nat \<Rightarrow> nat \<Rightarrow> nat list" where
  "range_step n step = map (\<lambda>k. k * step) [0..<(n + step - 1) div step]"

definition index_ll :: "nat list \<Rightarrow> nat \<Rightarrow> nat \<Rightarrow> nat list list" where
  "index_ll random_task_index task_num gs =
     map (\<lambda>ii. take gs (drop ii random_task_index)) (range_step task_num gs)"

text \<open>
  \<^verbatim>\<open>generate_jobs\<close> takes the state \<open>g0\<close> of the module-level generator and returns the
  state it leaves. \<^verbatim>\<open>group_size\<close> is an integer in this model, so the test
  \<^verbatim>\<open>type(group_size) is not int\<close> is false. \<^verbatim>\<open>copy.deepcopy\<close> of a value is the value.
\<close>

definition generate_jobs ::
  "'g Random \<Rightarrow> hashing \<Rightarrow> Submission \<Rightarrow> 'g \<Rightarrow> error + (Submission \<times> 'g)" where
  "generate_jobs R H s g0 =
     (let gs = group_size (resources s) in
      if gs < 1 then Inl (RuntimeError ''group_size must be a positive number'')
      else
        let task_num = length (belonging_tasks s) in
        if task_num = 0 then Inl (RuntimeError ''submission must have at least 1 task'')
        else
          (case shuffle R [0..<task_num] (seed R 42) of
             Inl err \<Rightarrow> Inl err
           | Inr (random_task_index, g) \<Rightarrow>
               (let ll = index_ll random_task_index task_num (nat gs);
                    jobs = map (\<lambda>ii. Job_init H (map (\<lambda>jj. belonging_tasks s ! jj) ii)
                                       (resources s)) ll;
                    s1 = s\<lparr>belonging_jobs := belonging_jobs s @ jobs\<rparr>
                in Inr (s1\<lparr>submission_hash := get_hash H s1\<rparr>, g))))"

section \<open>The Batch and Context interfaces, and the environment\<close>

text \<open>
  The Batch driver and its Context are external collaborators; the model takes their
  operations as functions on a state \<open>'w\<close> of the outside world (scheduler and remote
  files) and assumes that they return. The batch back-reference stored in a Submission
  and in its Jobs is passed to each operation instead. The JSON text layer is abstracted:
  the content of a file is the dictionary \<^verbatim>\<open>json.loads\<close> yields on it.
\<close>

record 'w Batch =
  do_submit :: "Job \<Rightarrow> 'w \<Rightarrow> string \<times> 'w"
  check_status :: "Job \<Rightarrow> 'w \<Rightarrow> JobStatus \<times> 'w"
  bind_submission :: "Submission \<Rightarrow> 'w \<Rightarrow> 'w"
  upload :: "Submission \<Rightarrow> 'w \<Rightarrow> 'w"
  download :: "Submission \<Rightarrow> 'w \<Rightarrow> 'w"
  check_file_exists :: "string \<Rightarrow> 'w \<Rightarrow> bool"
  read_file :: "string \<Rightarrow> 'w \<Rightarrow> submission_dict"
  write_file :: "string \<Rightarrow> submission_dict \<Rightarrow> 'w \<Rightarrow> 'w"

text \<open>What \<^verbatim>\<open>time.sleep\<close> can end with, other than returning.\<close>

datatype interruption = KeyboardInterrupt | SystemExit | OtherException string

text \<open>
  Every call of an external operation and every \<^verbatim>\<open>print\<close> is recorded, in order, in a
  trace kept beside the world.
\<close>

datatype printed =
  PDebugJob string string state_val
  | PLine string
  | PSubmissionHash string
  | PSerialize submission_dict

datatype event =
  EvCheckStatus string JobStatus
  | EvSubmit string string
  | EvBindSubmission string
  | EvUpload
  | EvDownload
  | EvCheckFileExists string bool
  | EvReadFile string
  | EvWriteFile string submission_dict
  | EvSleep
  | EvPrint printed

record 'w env =
  world :: 'w
  trace :: "event list"

definition emit :: "event \<Rightarrow> 'w env \<Rightarrow> 'w env" where
  "emit ev e = e\<lparr>trace := trace e @ [ev]\<rparr>"

datatype 'w run_result =
  Returned Submission "'w env"
  | Exited nat Submission "'w env"
  | Raised error Submission "'w env"

section \<open>Job: runtime operations\<close>

definition submit_job :: "'w Batch \<Rightarrow> Job \<Rightarrow> 'w env \<Rightarrow> Job \<times> 'w env" where
  "submit_job B j e =
     (let (jid, w) = do_submit B j (world e) in
      (j\<lparr>job_id := jid\<rparr>, emit (EvSubmit (job_hash j) jid) (e\<lparr>world := w\<rparr>)))"

definition get_job_state :: "'w Batch \<Rightarrow> Job \<Rightarrow> 'w env \<Rightarrow> Job \<times> 'w env" where
  "get_job_state B j e =
     (let (st, w) = check_status B j (world e) in
      (j\<lparr>job_state := Status st\<rparr>, emit (EvCheckStatus (job_hash j) st) (e\<lparr>world := w\<rparr>)))"

text \<open>
  The handler reads \<^verbatim>\<open>job_state\<close> once into a local variable, so the three tests are on
  the same value and at most one branch runs. An exception leaves the Job as it was
  mutated so far: the error comes with the Job and the environment at the raise.
\<close>

definition handle_unexpected_job_state ::
  "'w Batch \<Rightarrow> hashing \<Rightarrow> Job \<Rightarrow> 'w env \<Rightarrow> (error \<times> Job \<times> 'w env) + (Job \<times> 'w env)" where
  "handle_unexpected_job_state B H j e =
     (let st = job_state j in
      if st = Status unknown then
        Inl (JobRuntimeError ''job_state for job {job} is unknown'' (Job_serialize H False j),
             j, e)
      else if st = Status terminated then
        (let e1 = emit (EvPrint (PLine (''job: '' @ job_hash j @ '' terminated; restarting job''))) e
         in if fail_count j > 5 then
              Inl (JobRuntimeError ''job:job {job} failed 5 times'' (Job_serialize H False j),
                   j, e1)
            else
              (let j1 = j\<lparr>fail_count := fail_count j + 1\<rparr>;
                   (j2, e2) = submit_job B j1 e1
               in Inr (get_job_state B j2 e2)))
      else if st = Status unsubmitted then
        (if fail_count j > 5 then
           Inl (JobRuntimeError ''job:job {job} failed 5 times'' (Job_serialize H False j),
                j, e)
         else
           (let j1 = j\<lparr>fail_count := fail_count j + 1\<rparr>;
                (j2, e2) = submit_job B j1 e;
                e3 = emit (EvPrint (PLine (''job: '' @ job_hash j2 @ '' submit; job_id is ''
                                            @ job_id j2))) e2
            in Inr (get_job_state B j2 e3)))
      else Inr (j, e))"

section \<open>Submission: state refresh, snapshot, recovery\<close>

fun get_job_states :: "'w Batch \<Rightarrow> Job list \<Rightarrow> 'w env \<Rightarrow> Job list \<times> 'w env" where
  "get_job_states B [] e = ([], e)"
| "get_job_states B (j # js) e =
     (let (j1, e1) = get_job_state B j e;
          e2 = emit (EvPrint (PDebugJob (job_hash j1) (job_id j1) (job_state j1))) e1;
          (js1, e3) = get_job_states B js e2
      in (j1 # js1, e3))"

definition get_submission_state ::
  "'w Batch \<Rightarrow> Submission \<Rightarrow> 'w env \<Rightarrow> Submission \<times> 'w env" where
  "get_submission_state B s e =
     (let (js, e1) = get_job_states B (belonging_jobs s) e in (s\<lparr>belonging_jobs := js\<rparr>, e1))"

text \<open>
  The loop of \<^verbatim>\<open>handle_unexpected_submission_state\<close>: a raise stops it, with the Jobs
  handled so far as they are.
\<close>

fun handle_jobs ::
  "'w Batch \<Rightarrow> hashing \<Rightarrow> Job list \<Rightarrow> 'w env \<Rightarrow>
   (error \<times> Job list \<times> 'w env) + (Job list \<times> 'w env)" where
  "handle_jobs B H [] e = Inr ([], e)"
| "handle_jobs B H (j # js) e =
     (case handle_unexpected_job_state B H j e of
        Inl (err, j1, e1) \<Rightarrow> Inl (err, j1 # js, e1)
      | Inr (j1, e1) \<Rightarrow>
          (case handle_jobs B H js e1 of
             Inl (err, js1, e2) \<Rightarrow> Inl (err, j1 # js1, e2)
           | Inr (js1, e2) \<Rightarrow> Inr (j1 # js1, e2)))"

definition handle_unexpected_submission_state ::
  "'w Batch \<Rightarrow> hashing \<Rightarrow> Submission \<Rightarrow> 'w env \<Rightarrow>
   (error \<times> Submission \<times> 'w env) + (Submission \<times> 'w env)" where
  "handle_unexpected_submission_state B H s e =
     (case handle_jobs B H (belonging_jobs s) e of
        Inl (err, js, e1) \<Rightarrow> Inl (err, s\<lparr>belonging_jobs := js\<rparr>, e1)
      | Inr (js, e1) \<Rightarrow> Inr (s\<lparr>belonging_jobs := js\<rparr>, e1))"

text \<open>
  What \<^verbatim>\<open>json.loads\<close> reads back from \<^verbatim>\<open>json.dumps(d, indent=2, default=str)\<close>: the
  state of a job, when it is an enum member, has become its \<^verbatim>\<open>str\<close>.
\<close>

fun json_state :: "state_val \<Rightarrow> state_val" where
  "json_state NoState = NoState"
| "json_state (Status st) = StatusStr (JobStatus_str st)"
| "json_state (StatusStr x) = StatusStr x"

definition json_job_dict :: "job_dict \<Rightarrow> job_dict" where
  "json_job_dict jd =
     map (\<lambda>(k, tds, rd, rt).
            (k, tds, rd, map_option (\<lambda>(st, jid, fc). (json_state st, jid, fc)) rt)) jd"

definition json_dumps :: "submission_dict \<Rightarrow> submission_dict" where
  "json_dumps d =
     (case d of (wb, rd, fcf, bcf, jobs) \<Rightarrow> (wb, rd, fcf, bcf, map json_job_dict jobs))"

definition submission_to_json ::
  "'w Batch \<Rightarrow> hashing \<Rightarrow> Submission \<Rightarrow> 'w env \<Rightarrow> Submission \<times> 'w env" where
  "submission_to_json B H s e =
     (let (s1, e1) = get_submission_state B s e;
          write_str = json_dumps (Submission_serialize H False s1);
          submission_file_name = submission_hash s1 @ ''.json''
      in (s1, emit (EvWriteFile submission_file_name write_str)
                (e1\<lparr>world := write_file B submission_file_name write_str (world e1)\<rparr>)))"

text \<open>
  \<^verbatim>\<open>bind_batch(batch)\<close> for a batch, and for \<^verbatim>\<open>None\<close> (where only the hash is recomputed,
  as in the constructor's default and in \<^verbatim>\<open>deserialize\<close>).
\<close>

definition bind_batch_None :: "hashing \<Rightarrow> Submission \<Rightarrow> Submission" where
  "bind_batch_None H s = s\<lparr>submission_hash := get_hash H s\<rparr>"

definition bind_batch ::
  "'w Batch \<Rightarrow> hashing \<Rightarrow> Submission \<Rightarrow> 'w env \<Rightarrow> Submission \<times> 'w env" where
  "bind_batch B H s e =
     (let s1 = s\<lparr>submission_hash := get_hash H s\<rparr> in
      (s1, emit (EvBindSubmission (submission_hash s1))
             (e\<lparr>world := bind_submission B s1 (world e)\<rparr>)))"

definition Submission_init ::
  "hashing \<Rightarrow> string \<Rightarrow> Resources \<Rightarrow> string list \<Rightarrow> string list \<Rightarrow> Submission" where
  "Submission_init H wb r fcf bcf =
     bind_batch_None H
       \<lparr>work_base = wb, resources = r, forward_common_files = fcf,
        backward_common_files = bcf, submission_hash = [], belonging_tasks = [],
        belonging_jobs = []\<rparr>"

definition Submission_deserialize :: "hashing \<Rightarrow> submission_dict \<Rightarrow> error + Submission" where
  "Submission_deserialize H d =
     (case d of (wb, rd, fcf, bcf, jobs) \<Rightarrow>
        (case Resources_deserialize rd of
           Inl err \<Rightarrow> Inl err
         | Inr r \<Rightarrow>
             (let submission = Submission_init H wb r fcf bcf in
              case Job_deserialize_list H jobs of
                Inl err \<Rightarrow> Inl err
              | Inr js \<Rightarrow>
                  (let s1 = submission\<lparr>belonging_jobs := js\<rparr>;
                       s2 = s1\<lparr>submission_hash := get_hash H s1\<rparr>
                   in Inr (bind_batch_None H s2)))))"

text \<open>
  \<^verbatim>\<open>try_recover_from_json\<close>. On a match the assignment \<^verbatim>\<open>self = submission.bind_batch(...)\<close>
  rebinds a local name only, but the call binds the context a second time, to the
  deserialized Submission.
\<close>

definition try_recover_from_json ::
  "'w Batch \<Rightarrow> hashing \<Rightarrow> Submission \<Rightarrow> 'w env \<Rightarrow>
   (error \<times> Submission \<times> 'w env) + (Submission \<times> 'w env)" where
  "try_recover_from_json B H s e =
     (let submission_file_name = submission_hash s @ ''.json'';
          if_recover = check_file_exists B submission_file_name (world e);
          e1 = emit (EvCheckFileExists submission_file_name if_recover) e
      in if if_recover then
           (let submission_dict = read_file B submission_file_name (world e1);
                e2 = emit (EvReadFile submission_file_name) e1
            in case Submission_deserialize H submission_dict of
                 Inl err \<Rightarrow> Inl (err, s, e2)
               | Inr submission \<Rightarrow>
                   if Submission_eq H s submission then
                     (let s1 = s\<lparr>belonging_jobs := belonging_jobs submission\<rparr>;
                          (s2, e3) = bind_batch B H s1 e2;
                          (other, e4) = bind_batch B H submission e3
                      in Inr (s2, e4))
                   else
                     (let e3 = emit (EvPrint (PSerialize (Submission_serialize H False s))) e2;
                          e4 = emit (EvPrint (PSerialize
                                 (Submission_serialize H False submission))) e3
                      in Inl (RuntimeError ''Recover failed.'', s, e4)))
         else Inr (s, e1))"

definition check_all_finished ::
  "'w Batch \<Rightarrow> hashing \<Rightarrow> Submission \<Rightarrow> 'w env \<Rightarrow> bool \<times> Submission \<times> 'w env" where
  "check_all_finished B H s e =
     (let (s1, e1) = get_submission_state B s e;
          (s2, e2) =
             (if list_ex (\<lambda>job. job_state job \<in> set [Status terminated, Status unknown])
                   (belonging_jobs s1)
              then submission_to_json B H s1 e1 else (s1, e1))
      in if list_ex (\<lambda>job. job_state job \<in>
                set [Status running, Status waiting, Status unsubmitted, Status completing,
                     Status terminated, Status unknown]) (belonging_jobs s2)
         then (False, s2, e2) else (True, s2, e2))"

definition upload_jobs :: "'w Batch \<Rightarrow> Submission \<Rightarrow> 'w env \<Rightarrow> 'w env" where
  "upload_jobs B s e = emit EvUpload (e\<lparr>world := upload B s (world e)\<rparr>)"

definition download_jobs :: "'w Batch \<Rightarrow> Submission \<Rightarrow> 'w env \<Rightarrow> 'w env" where
  "download_jobs B s e = emit EvDownload (e\<lparr>world := download B s (world e)\<rparr>)"

section \<open>run_submission\<close>

text \<open>
  An \<^verbatim>\<open>except\<close> clause of the polling loop: snapshot, four prints, \<^verbatim>\<open>exit(code)\<close>. The
  three clauses differ in the text between the markers and in the code.
\<close>

definition except_clause ::
  "'w Batch \<Rightarrow> hashing \<Rightarrow> string \<Rightarrow> nat \<Rightarrow> Submission \<Rightarrow> 'w env \<Rightarrow> 'w run_result" where
  "except_clause B H what code s e =
     (let (s1, e1) = submission_to_json B H s e;
          e2 = emit (EvPrint (PLine (''<<<<<<dpdispatcher<<<<<<'' @ what @ ''<<<<<<exit<<<<<<''))) e1;
          e3 = emit (EvPrint (PSubmissionHash (submission_hash s1))) e2;
          e4 = emit (EvPrint (PSerialize (Submission_serialize H False s1))) e3;
          e5 = emit (EvPrint (PLine (''>>>>>>dpdispatcher>>>>>>'' @ what @ ''>>>>>>exit>>>>>>''))) e4
      in Exited code s1 e5)"

text \<open>
  The body of the \<^verbatim>\<open>while\<close> loop: the \<^verbatim>\<open>try\<close> block holds the sleep alone, and the
  \<^verbatim>\<open>else\<close> clause, which the \<^verbatim>\<open>except\<close> clauses do not protect, calls the handler. The
  result is the end of the run, or the state the next iteration starts from.
\<close>

definition loop_body ::
  "'w Batch \<Rightarrow> hashing \<Rightarrow> ('w \<Rightarrow> interruption option \<times> 'w) \<Rightarrow> Submission \<Rightarrow> 'w env \<Rightarrow>
   'w run_result + (Submission \<times> 'w env)" where
  "loop_body B H time_sleep s e =
     (let (r, w) = time_sleep (world e);
          e1 = emit EvSleep (e\<lparr>world := w\<rparr>)
      in case r of
           Some KeyboardInterrupt \<Rightarrow> Inl (except_clause B H ''KeyboardInterrupt'' 1 s e1)
         | Some SystemExit \<Rightarrow> Inl (except_clause B H ''SystemExit'' 2 s e1)
         | Some (OtherException msg) \<Rightarrow> Inl (except_clause B H msg 3 s e1)
         | None \<Rightarrow>
             (case handle_unexpected_submission_state B H s e1 of
                Inl (err, s1, e2) \<Rightarrow> Inl (Raised err s1 e2)
              | Inr (s1, e2) \<Rightarrow> Inr (s1, e2)))"

text \<open>The statements after the loop.\<close>

definition after_loop :: "'w Batch \<Rightarrow> hashing \<Rightarrow> Submission \<Rightarrow> 'w env \<Rightarrow> 'w run_result" where
  "after_loop B H s e =
     (case handle_unexpected_submission_state B H s e of
        Inl (err, s1, e1) \<Rightarrow> Raised err s1 e1
      | Inr (s1, e1) \<Rightarrow>
          (let (s2, e2) = submission_to_json B H s1 e1 in
           Returned s2 (download_jobs B s2 e2)))"

text \<open>
  The polling loop with what follows it. The loop need not end: \<open>None\<close> is a run that polls
  forever.
\<close>

partial_function (option) polling_loop ::
  "'w Batch \<Rightarrow> hashing \<Rightarrow> ('w \<Rightarrow> interruption option \<times> 'w) \<Rightarrow> Submission \<Rightarrow> 'w env \<Rightarrow>
   'w run_result option" where
  "polling_loop B H time_sleep s e =
     (case check_all_finished B H s e of
        (fin, s1, e1) \<Rightarrow>
          if fin then Some (after_loop B H s1 e1)
          else
            (case loop_body B H time_sleep s1 e1 of
               Inl res \<Rightarrow> Some res
             | Inr (s2, e2) \<Rightarrow> polling_loop B H time_sleep s2 e2))"

text \<open>
  The statements of \<^verbatim>\<open>run_submission\<close> before the loop. In the branch that uploads, the
  statement \<^verbatim>\<open>self.submission_to_json\<close> has no call parentheses: it evaluates the bound
  method and discards it, so nothing is written there.
\<close>

definition before_loop ::
  "'w Batch \<Rightarrow> hashing \<Rightarrow> Submission \<Rightarrow> 'w env \<Rightarrow>
   (error \<times> Submission \<times> 'w env) + (Submission \<times> 'w env)" where
  "before_loop B H s e =
     (case try_recover_from_json B H s e of
        Inl x \<Rightarrow> Inl x
      | Inr (s1, e1) \<Rightarrow>
          (case check_all_finished B H s1 e1 of
             (fin, s2, e2) \<Rightarrow>
               if fin then Inr (s2, e2)
               else handle_unexpected_submission_state B H s2 (upload_jobs B s2 e2)))"

definition run_submission ::
  "'w Batch \<Rightarrow> hashing \<Rightarrow> ('w \<Rightarrow> interruption option \<times> 'w) \<Rightarrow> Submission \<Rightarrow> 'w env \<Rightarrow>
   'w run_result option" where
  "run_submission B H time_sleep s e =
     (case before_loop B H s e of
        Inl (err, s1, e1) \<Rightarrow> Some (Raised err s1 e1)
      | Inr (s1, e1) \<Rightarrow> polling_loop B H time_sleep s1 e1)"

text \<open>How a run ended, and the trace it left.\<close>

fun exit_code_of :: "'w run_result option \<Rightarrow> nat option" where
  "exit_code_of (Some (Exited code s e)) = Some code"
| "exit_code_of r = None"

fun raised_error :: "'w run_result option \<Rightarrow> error option" where
  "raised_error (Some (Raised err s e)) = Some err"
| "raised_error r = None"

fun result_trace :: "'w run_result option \<Rightarrow> event list" where
  "result_trace (Some (Returned s e)) = trace e"
| "result_trace (Some (Exited code s e)) = trace e"
| "result_trace (Some (Raised err s e)) = trace e"
| "result_trace None = []"

section \<open>Assumptions on the library and sample inputs\<close>


text \<open>
  A small generator, hash functions, and a Submission of three Tasks with group size 2,
  on which the properties below are instantiated.
\<close>

definition demo_random :: "nat Random" where
  "demo_random = \<lparr>seed = (\<lambda>x. nat x), randbelow = (\<lambda>n g. (g mod n, 3 * g + 1))\<rparr>"

definition demo_hashing :: hashing where
  "demo_hashing =
     \<lparr>sha1_job = (\<lambda>(tds, rd). concat (map fst tds)),
      sha1_submission =
        (\<lambda>(wb, rd, fcf, bcf, jobs). wb @ concat (map (\<lambda>jd. concat (map fst jd)) jobs))\<rparr>"

definition demo_task :: "string \<Rightarrow> Task" where
  "demo_task c =
     \<lparr>command = c, task_work_path = ''.'', forward_files = [], backward_files = [],
      outlog = ''log'', errlog = ''err'', task_need_resources = 1\<rparr>"

definition demo_resources :: Resources where
  "demo_resources =
     \<lparr>number_node = 1, cpu_per_node = 4, gpu_per_node = 0, queue_name = ''q'',
      group_size = 2, if_cuda_multi_devices = False, in_use = 0\<rparr>"

definition demo_submission :: Submission where
  "demo_submission =
     (Submission_init demo_hashing ''w'' demo_resources [] [])
       \<lparr>belonging_tasks := [demo_task ''c0'', demo_task ''c1'', demo_task ''c2'']\<rparr>"

text \<open>
  A mock Batch over a world of remote files, submitted job hashes and a clock; the status
  it reports is a parameter. \<open>demo_generated\<close> is the sample Submission after
  \<^verbatim>\<open>generate_jobs\<close>, \<open>demo_running\<close> the same with other runtime triples.
\<close>

record demo_world =
  files :: "(string \<times> submission_dict) list"
  submitted :: "string list"
  clock :: nat

definition demo_batch :: "(Job \<Rightarrow> demo_world \<Rightarrow> JobStatus) \<Rightarrow> demo_world Batch" where
  "demo_batch status =
     \<lparr>do_submit = (\<lambda>j w. (''id-'' @ job_hash j, w\<lparr>submitted := job_hash j # submitted w\<rparr>)),
      check_status = (\<lambda>j w. (status j w, w)),
      bind_submission = (\<lambda>s w. w),
      upload = (\<lambda>s w. w),
      download = (\<lambda>s w. w),
      check_file_exists = (\<lambda>name w. map_of (files w) name \<noteq> None),
      read_file = (\<lambda>name w. case map_of (files w) name of
                      Some d \<Rightarrow> d | None \<Rightarrow> ([], (0, 0, 0, [], 0, False), [], [], [])),
      write_file = (\<lambda>name d w. w\<lparr>files := (name, d) # files w\<rparr>)\<rparr>"

definition demo_env :: "demo_world env" where
  "demo_env = \<lparr>world = \<lparr>files = [], submitted = [], clock = 0\<rparr>, trace = []\<rparr>"

definition demo_generated :: Submission where
  "demo_generated =
     (case generate_jobs demo_random demo_hashing demo_submission 0 of
        Inr (s, g) \<Rightarrow> s | Inl err \<Rightarrow> demo_submission)"

definition demo_running :: Submission where
  "demo_running =
     demo_generated\<lparr>belonging_jobs :=
       map (\<lambda>j. j\<lparr>job_state := Status running, job_id := ''42'', fail_count := 1\<rparr>)
         (belonging_jobs demo_generated)\<rparr>"

text \<open>Observations on a trace: the job hashes submitted, those checked, the files written.\<close>

definition submits :: "event list \<Rightarrow> string list" where
  "submits tr = concat (map (\<lambda>ev. case ev of EvSubmit h jid \<Rightarrow> [h] | _ \<Rightarrow> []) tr)"

definition checked :: "event list \<Rightarrow> string list" where
  "checked tr = concat (map (\<lambda>ev. case ev of EvCheckStatus h st \<Rightarrow> [h] | _ \<Rightarrow> []) tr)"

definition written :: "event list \<Rightarrow> (string \<times> submission_dict) list" where
  "written tr = concat (map (\<lambda>ev. case ev of EvWriteFile name d \<Rightarrow> [(name, d)] | _ \<Rightarrow> []) tr)"

definition demo_scheduler :: "Job \<Rightarrow> demo_world \<Rightarrow> JobStatus" where
  "demo_scheduler j w = (if job_hash j \<in> set (submitted w) then running else unsubmitted)"




text \<open>
  A Batch whose first two status checks report \<^verbatim>\<open>running\<close> and the later ones \<^verbatim>\<open>unknown\<close>;
  a sleep that returns and one that is interrupted by the user; the states with which
  two sample runs enter the polling loop.
\<close>

definition demo_batch_flaky :: "demo_world Batch" where
  "demo_batch_flaky =
     (demo_batch demo_scheduler)
       \<lparr>check_status :=
          (\<lambda>j w. (if clock w < 2 then running else unknown, w\<lparr>clock := clock w + 1\<rparr>))\<rparr>"

definition demo_tick :: "demo_world \<Rightarrow> interruption option \<times> demo_world" where
  "demo_tick w = (None, w)"

definition demo_cancel :: "demo_world \<Rightarrow> interruption option \<times> demo_world" where
  "demo_cancel w = (Some KeyboardInterrupt, w)"

definition demo_flaky_loop_entry :: "Submission \<times> demo_world env" where
  "demo_flaky_loop_entry = projr (before_loop demo_batch_flaky demo_hashing demo_generated demo_env)"

definition demo_loop_entry :: "Submission \<times> demo_world env" where
  "demo_loop_entry =
     projr (before_loop (demo_batch demo_scheduler) demo_hashing demo_generated demo_env)"

text \<open>
  Two worlds with a file under the name of the sample Submission's snapshot: the snapshot
  of the sample Submission with its Jobs running, and one with another work base.
\<close>

definition demo_snapshot_world :: "submission_dict \<Rightarrow> demo_world env" where
  "demo_snapshot_world d =
     \<lparr>world = \<lparr>files = [(''wc2c1c0.json'', d)], submitted = [], clock = 0\<rparr>, trace = []\<rparr>"

definition demo_snapshot :: submission_dict where
  "demo_snapshot = json_dumps (Submission_serialize demo_hashing False demo_running)"

definition demo_other_snapshot :: submission_dict where
  "demo_other_snapshot =
     json_dumps (Submission_serialize demo_hashing False (demo_running\<lparr>work_base := ''v''\<rparr>))"

text \<open>
  What the Batch answers when it is asked for the status of the given Jobs, in order, from
  the world \<open>w\<close>, with the world it leaves; the Jobs with these statuses as their states;
  and a Batch whose first two status checks report \<^verbatim>\<open>terminated\<close> and the later ones
  \<^verbatim>\<open>finished\<close>.
\<close>

fun polled :: "'w Batch \<Rightarrow> Job list \<Rightarrow> 'w \<Rightarrow> JobStatus list \<times> 'w" where
  "polled B [] w = ([], w)"
| "polled B (j # js) w =
     (let (st, w1) = check_status B j w;
          (sts, w2) = polled B js w1
      in (st # sts, w2))"

definition with_states :: "Job list \<Rightarrow> JobStatus list \<Rightarrow> Job list" where
  "with_states js sts = map (\<lambda>(j, st). j\<lparr>job_state := Status st\<rparr>) (zip js sts)"

definition demo_batch_recovering :: "demo_world Batch" where
  "demo_batch_recovering =
     (demo_batch demo_scheduler)
       \<lparr>check_status :=
          (\<lambda>j w. (if clock w < 2 then terminated else finished, w\<lparr>clock := clock w + 1\<rparr>))\<rparr>"

section \<open>Properties\<close>

subsection \<open>Shuffling and chunking\<close>
















subsection \<open>C1: deterministic grouping\<close>




subsection \<open>Static serialization\<close>

lemma demo_generated_jobs:
  "belonging_jobs demo_generated =
     [Job_init demo_hashing [demo_task ''c2'', demo_task ''c1''] demo_resources,
      Job_init demo_hashing [demo_task ''c0''] demo_resources]"
  by code_simp

lemma Job_serialize_static:
  "Job_serialize H True j =
     [(sha1_job H (map Task_serialize (job_task_list j), Resources_serialize (job_resources j)),
       (map Task_serialize (job_task_list j), Resources_serialize (job_resources j), None))]"
  by (simp add: Job_serialize_def Let_def)

lemma Job_serialize_static_eq:
  "(Job_serialize H True a = Job_serialize H True b) =
     (map Task_serialize (job_task_list a) = map Task_serialize (job_task_list b)
      \<and> Resources_serialize (job_resources a) = Resources_serialize (job_resources b))"
  by (auto simp add: Job_serialize_static)

lemma map_Job_serialize_static_eq:
  "(map (Job_serialize H True) xs = map (Job_serialize H True) ys) =
     (map (\<lambda>j. (map Task_serialize (job_task_list j), Resources_serialize (job_resources j))) xs
      = map (\<lambda>j. (map Task_serialize (job_task_list j), Resources_serialize (job_resources j))) ys)"
proof (induction xs arbitrary: ys)
  case Nil
  then show ?case by auto
next
  case (Cons x xs)
  show ?case
  proof (cases ys)
    case Nil
    then show ?thesis by simp
  next
    case (Cons y ys')
    with Cons.IH [of ys'] show ?thesis
      by (simp add: Job_serialize_static_eq)
  qed
qed

lemma map_Job_serialize_runtime:
  "map (Job_serialize H True)
     (map (\<lambda>(i, j). j\<lparr>job_state := st i, job_id := jid i, fail_count := fc i\<rparr>)
        (enumerate n js))
   = map (Job_serialize H True) js"
  by (induction js arbitrary: n) (simp_all add: Job_serialize_static)

subsection \<open>C8: runtime isolation of equality\<close>

text \<open>
  C8. Two Submissions are equal exactly when their work base, serialized Resources, common
  files and the static content (serialized task list and Resources) of their Jobs agree:
  the comparison is on the static serialization, in which \<^verbatim>\<open>job_state\<close>, \<^verbatim>\<open>job_id\<close> and
  \<^verbatim>\<open>fail_count\<close> do not occur. So a Job stays equal to itself, and a Submission to
  itself, whatever runtime triples its Jobs are given.
\<close>

theorem Submission_eq_runtime_isolation:
  "Submission_eq H s1 s2 =
     (work_base s1 = work_base s2
      \<and> Resources_serialize (resources s1) = Resources_serialize (resources s2)
      \<and> forward_common_files s1 = forward_common_files s2
      \<and> backward_common_files s1 = backward_common_files s2
      \<and> map (\<lambda>j. (map Task_serialize (job_task_list j), Resources_serialize (job_resources j)))
            (belonging_jobs s1)
        = map (\<lambda>j. (map Task_serialize (job_task_list j), Resources_serialize (job_resources j)))
            (belonging_jobs s2))
   \<and> Job_eq H (j\<lparr>job_state := st0, job_id := jid0, fail_count := fc0\<rparr>) j
   \<and> Submission_eq H
        (s\<lparr>belonging_jobs :=
             map (\<lambda>(i, j). j\<lparr>job_state := st i, job_id := jid i, fail_count := fc i\<rparr>)
               (enumerate 0 (belonging_jobs s))\<rparr>) s"
proof (intro conjI)
  show "Submission_eq H s1 s2 =
     (work_base s1 = work_base s2
      \<and> Resources_serialize (resources s1) = Resources_serialize (resources s2)
      \<and> forward_common_files s1 = forward_common_files s2
      \<and> backward_common_files s1 = backward_common_files s2
      \<and> map (\<lambda>j. (map Task_serialize (job_task_list j), Resources_serialize (job_resources j)))
            (belonging_jobs s1)
        = map (\<lambda>j. (map Task_serialize (job_task_list j), Resources_serialize (job_resources j)))
            (belonging_jobs s2))"
    by (simp add: Submission_eq_def Submission_serialize_def map_Job_serialize_static_eq)
  show "Job_eq H (j\<lparr>job_state := st0, job_id := jid0, fail_count := fc0\<rparr>) j"
    by (simp add: Job_eq_def Job_serialize_static)
  show "Submission_eq H
        (s\<lparr>belonging_jobs :=
             map (\<lambda>(i, j). j\<lparr>job_state := st i, job_id := jid i, fail_count := fc i\<rparr>)
               (enumerate 0 (belonging_jobs s))\<rparr>) s"
    using map_Job_serialize_runtime
      [where H = H and st = st and jid = jid and fc = fc and n = 0 and js = "belonging_jobs s"]
    by (simp add: Submission_eq_def Submission_serialize_def del: map_map)
qed

theorem Submission_eq_runtime_isolation_witness:
  "Submission_eq demo_hashing demo_generated demo_running
   \<and> map job_state (belonging_jobs demo_generated) = [NoState, NoState]
   \<and> map job_state (belonging_jobs demo_running) = [Status running, Status running]
   \<and> map job_id (belonging_jobs demo_generated) = [[], []]
   \<and> map job_id (belonging_jobs demo_running) = [''42'', ''42'']
   \<and> map fail_count (belonging_jobs demo_generated) = [0, 0]
   \<and> map fail_count (belonging_jobs demo_running) = [1, 1]"
proof -
  have static:
    "work_base demo_generated = work_base demo_running
      \<and> Resources_serialize (resources demo_generated)
          = Resources_serialize (resources demo_running)
      \<and> forward_common_files demo_generated = forward_common_files demo_running
      \<and> backward_common_files demo_generated = backward_common_files demo_running
      \<and> map (\<lambda>j. (map Task_serialize (job_task_list j), Resources_serialize (job_resources j)))
            (belonging_jobs demo_generated)
        = map (\<lambda>j. (map Task_serialize (job_task_list j), Resources_serialize (job_resources j)))
            (belonging_jobs demo_running)"
    by (simp add: demo_running_def comp_def)
  have eq: "Submission_eq demo_hashing demo_generated demo_running"
    using Submission_eq_runtime_isolation
      [where H = demo_hashing and ?s1.0 = demo_generated and ?s2.0 = demo_running,
        THEN conjunct1, THEN iffD2, OF static] .
  have r1: "map job_state (belonging_jobs demo_generated) = [NoState, NoState]" by code_simp
  have r2: "map job_state (belonging_jobs demo_running) = [Status running, Status running]"
    by code_simp
  have r3: "map job_id (belonging_jobs demo_generated) = [[], []]" by code_simp
  have r4: "map job_id (belonging_jobs demo_running) = [''42'', ''42'']" by code_simp
  have r5: "map fail_count (belonging_jobs demo_generated) = [0, 0]" by code_simp
  have r6: "map fail_count (belonging_jobs demo_running) = [1, 1]" by code_simp
  show ?thesis using eq r1 r2 r3 r4 r5 r6 by (intro conjI)
qed

subsection \<open>C10: the serialization omits the registered tasks\<close>

lemma Submission_serialize_belonging_tasks:
  "Submission_serialize H b (s\<lparr>belonging_tasks := ts\<rparr>) = Submission_serialize H b s"
  by (simp add: Submission_serialize_def)

text \<open>
  C10. \<^verbatim>\<open>Submission.serialize\<close> does not read \<^verbatim>\<open>belonging_tasks\<close>: two Submissions with the
  same work base, Resources, common files and Jobs have the same serialization, are equal
  and have the same hash (\<^verbatim>\<open>get_hash\<close>, and the stored \<^verbatim>\<open>submission_hash\<close> when it is up to
  date), whatever Tasks are registered in them; a successful \<^verbatim>\<open>register_task\<close> or
  \<^verbatim>\<open>register_task_list\<close> changes neither the stored hash nor \<^verbatim>\<open>get_hash\<close>.
\<close>

theorem serialize_omits_belonging_tasks:
  assumes "work_base s1 = work_base s2" and "resources s1 = resources s2"
    and "forward_common_files s1 = forward_common_files s2"
    and "backward_common_files s1 = backward_common_files s2"
    and "belonging_jobs s1 = belonging_jobs s2"
  shows "Submission_serialize H b s1 = Submission_serialize H b s2
    \<and> Submission_eq H s1 s2
    \<and> get_hash H s1 = get_hash H s2
    \<and> (submission_hash s1 = get_hash H s1 \<and> submission_hash s2 = get_hash H s2
         \<longrightarrow> submission_hash s1 = submission_hash s2)
    \<and> (\<forall>s'. register_task s1 t = Inr s' \<longrightarrow>
          submission_hash s' = submission_hash s1 \<and> get_hash H s' = get_hash H s1
          \<and> Submission_eq H s' s1)
    \<and> (\<forall>s'. register_task_list s1 ts = Inr s' \<longrightarrow>
          submission_hash s' = submission_hash s1 \<and> get_hash H s' = get_hash H s1
          \<and> Submission_eq H s' s1)"
proof -
  have ser: "Submission_serialize H b s1 = Submission_serialize H b s2" for b
    using assms by (simp add: Submission_serialize_def)
  have reg: "register_task s1 t = Inr s' \<longrightarrow>
          submission_hash s' = submission_hash s1 \<and> get_hash H s' = get_hash H s1
          \<and> Submission_eq H s' s1" for s'
    by (auto simp add: register_task_def get_hash_def Submission_eq_def
        Submission_serialize_belonging_tasks split: if_splits)
  have regl: "register_task_list s1 ts = Inr s' \<longrightarrow>
          submission_hash s' = submission_hash s1 \<and> get_hash H s' = get_hash H s1
          \<and> Submission_eq H s' s1" for s'
    by (auto simp add: register_task_list_def get_hash_def Submission_eq_def
        Submission_serialize_belonging_tasks split: if_splits)
  show ?thesis
    using ser reg regl by (simp add: Submission_eq_def get_hash_def)
qed

theorem serialize_omits_belonging_tasks_witness:
  "Submission_serialize demo_hashing False demo_submission
     = Submission_serialize demo_hashing False (demo_submission\<lparr>belonging_tasks := []\<rparr>)
   \<and> belonging_tasks demo_submission \<noteq> belonging_tasks (demo_submission\<lparr>belonging_tasks := []\<rparr>)
   \<and> Submission_eq demo_hashing demo_submission (demo_submission\<lparr>belonging_tasks := []\<rparr>)
   \<and> get_hash demo_hashing demo_submission
       = get_hash demo_hashing (demo_submission\<lparr>belonging_tasks := []\<rparr>)
   \<and> (\<exists>s'. register_task demo_submission (demo_task ''c3'') = Inr s'
         \<and> submission_hash s' = submission_hash demo_submission
         \<and> get_hash demo_hashing s' = get_hash demo_hashing demo_submission
         \<and> Submission_eq demo_hashing s' demo_submission)
   \<and> (\<exists>s'. register_task_list demo_submission [demo_task ''c3'', demo_task ''c4''] = Inr s'
         \<and> submission_hash s' = submission_hash demo_submission
         \<and> get_hash demo_hashing s' = get_hash demo_hashing demo_submission
         \<and> Submission_eq demo_hashing s' demo_submission)"
proof -
  note c = serialize_omits_belonging_tasks
    [where ?s1.0 = demo_submission and ?s2.0 = "demo_submission\<lparr>belonging_tasks := []\<rparr>"
       and H = demo_hashing and b = False and t = "demo_task ''c3''"
       and ts = "[demo_task ''c3'', demo_task ''c4'']"]
  have c': "Submission_serialize demo_hashing False demo_submission
      = Submission_serialize demo_hashing False (demo_submission\<lparr>belonging_tasks := []\<rparr>)
    \<and> Submission_eq demo_hashing demo_submission (demo_submission\<lparr>belonging_tasks := []\<rparr>)
    \<and> get_hash demo_hashing demo_submission
        = get_hash demo_hashing (demo_submission\<lparr>belonging_tasks := []\<rparr>)
    \<and> (submission_hash demo_submission = get_hash demo_hashing demo_submission
          \<and> submission_hash (demo_submission\<lparr>belonging_tasks := []\<rparr>)
              = get_hash demo_hashing (demo_submission\<lparr>belonging_tasks := []\<rparr>)
         \<longrightarrow> submission_hash demo_submission
              = submission_hash (demo_submission\<lparr>belonging_tasks := []\<rparr>))
    \<and> (\<forall>s'. register_task demo_submission (demo_task ''c3'') = Inr s' \<longrightarrow>
          submission_hash s' = submission_hash demo_submission
          \<and> get_hash demo_hashing s' = get_hash demo_hashing demo_submission
          \<and> Submission_eq demo_hashing s' demo_submission)
    \<and> (\<forall>s'. register_task_list demo_submission [demo_task ''c3'', demo_task ''c4''] = Inr s'
          \<longrightarrow> submission_hash s' = submission_hash demo_submission
          \<and> get_hash demo_hashing s' = get_hash demo_hashing demo_submission
          \<and> Submission_eq demo_hashing s' demo_submission)"
    by (rule c) simp_all
  have nj: "belonging_jobs demo_submission = []" by code_simp
  have r1: "\<exists>s'. register_task demo_submission (demo_task ''c3'') = Inr s'"
    by (simp add: register_task_def nj)
  have r2: "\<exists>s'. register_task_list demo_submission [demo_task ''c3'', demo_task ''c4''] = Inr s'"
    by (simp add: register_task_list_def nj)
  have d: "belonging_tasks demo_submission
      \<noteq> belonging_tasks (demo_submission\<lparr>belonging_tasks := []\<rparr>)"
    by (simp add: demo_submission_def)
  show ?thesis using c' r1 r2 d by blast
qed

subsection \<open>C9: registration after the Jobs are generated\<close>

lemma register_task_locked:
  "belonging_jobs s \<noteq> [] \<Longrightarrow> register_task s t = Inl (KeyError ''self'')"
  "belonging_jobs s \<noteq> [] \<Longrightarrow> register_task_list s ts = Inl (KeyError ''self'')"
  by (simp_all add: register_task_def register_task_list_def)

lemma register_task_appends:
  "belonging_jobs s = [] \<Longrightarrow>
     register_task s t = Inr (s\<lparr>belonging_tasks := belonging_tasks s @ [t]\<rparr>)"
  "belonging_jobs s = [] \<Longrightarrow>
     register_task_list s ts = Inr (s\<lparr>belonging_tasks := belonging_tasks s @ ts\<rparr>)"
  by (simp_all add: register_task_def register_task_list_def)

text \<open>
  C9. On the sample Submission after \<^verbatim>\<open>generate_jobs\<close>, \<^verbatim>\<open>register_task\<close> and
  \<^verbatim>\<open>register_task_list\<close> raise \<^verbatim>\<open>KeyError('self')\<close>, from formatting the message, and not
  the \<^verbatim>\<open>RuntimeError\<close> they are building.
\<close>

theorem register_task_after_generate_jobs:
  "generate_jobs demo_random demo_hashing demo_submission 0 = Inr (demo_generated, 382)
   \<and> belonging_jobs demo_generated \<noteq> []
   \<and> register_task demo_generated (demo_task ''c3'') = Inl (KeyError ''self'')
   \<and> register_task_list demo_generated [demo_task ''c3''] = Inl (KeyError ''self'')"
  by code_simp

subsection \<open>C7: the state of a new Job\<close>


lemma submits_append: "submits (a @ b) = submits a @ submits b"
  by (simp add: submits_def)




subsection \<open>C5: check_all_finished\<close>

lemma checked_append: "checked (a @ b) = checked a @ checked b"
  by (simp add: checked_def)

lemma written_append: "written (a @ b) = written a @ written b"
  by (simp add: written_def)

lemma get_job_state_props:
  assumes "get_job_state B j e = (j1, e1)"
  shows "job_hash j1 = job_hash j" and "\<exists>st. job_state j1 = Status st"
    and "fail_count j1 = fail_count j" and "job_id j1 = job_id j"
    and "job_task_list j1 = job_task_list j" and "job_resources j1 = job_resources j"
    and "trace e1 = trace e @ [EvCheckStatus (job_hash j) (fst (check_status B j (world e)))]"
    and "job_state j1 = Status (fst (check_status B j (world e)))"
  using assms
  by (auto simp add: get_job_state_def emit_def Let_def split: prod.splits)

lemma get_job_states_props:
  "get_job_states B js e = (js1, e1) \<Longrightarrow>
     map job_hash js1 = map job_hash js
     \<and> (\<forall>j \<in> set js1. \<exists>st. job_state j = Status st)
     \<and> (\<exists>ext. trace e1 = trace e @ ext \<and> checked ext = map job_hash js
            \<and> written ext = [] \<and> submits ext = [])"
proof (induction js arbitrary: e js1 e1)
  case Nil
  then show ?case by (simp add: checked_def written_def submits_def)
next
  case (Cons j js)
  obtain j' ea where gj: "get_job_state B j e = (j', ea)" by (cases "get_job_state B j e")
  let ?eb = "emit (EvPrint (PDebugJob (job_hash j') (job_id j') (job_state j'))) ea"
  obtain js' ec where rec: "get_job_states B js ?eb = (js', ec)"
    by (cases "get_job_states B js ?eb")
  from Cons.prems gj rec have res: "js1 = j' # js'" "e1 = ec" by simp_all
  from Cons.IH [OF rec] obtain ext where
    ih: "map job_hash js' = map job_hash js" "\<forall>j \<in> set js'. \<exists>st. job_state j = Status st"
      "trace ec = trace ?eb @ ext" "checked ext = map job_hash js" "written ext = []"
      "submits ext = []"
    by blast
  note p = get_job_state_props [OF gj]
  let ?ext = "[EvCheckStatus (job_hash j) (fst (check_status B j (world e))),
               EvPrint (PDebugJob (job_hash j') (job_id j') (job_state j'))] @ ext"
  have t: "trace e1 = trace e @ ?ext"
    using res ih(3) p(7) by (simp add: emit_def)
  have c: "checked ?ext = map job_hash (j # js)"
    using ih(4) by (simp add: checked_def)
  have w: "written ?ext = []" using ih(5) by (simp add: written_def)
  have sb: "submits ?ext = []" using ih(6) by (simp add: submits_def)
  have m: "map job_hash js1 = map job_hash (j # js)" using res ih(1) p(1) by simp
  have st: "\<forall>j \<in> set js1. \<exists>st. job_state j = Status st" using res ih(2) p(2) by simp
  from t c w sb m st show ?case by blast
qed

lemma get_submission_state_props:
  assumes "get_submission_state B s e = (s1, e1)"
  shows "map job_hash (belonging_jobs s1) = map job_hash (belonging_jobs s)"
    and "\<forall>j \<in> set (belonging_jobs s1). \<exists>st. job_state j = Status st"
    and "\<exists>ext. trace e1 = trace e @ ext \<and> checked ext = map job_hash (belonging_jobs s)
            \<and> written ext = [] \<and> submits ext = []"
    and "submission_hash s1 = submission_hash s"
proof -
  obtain js ea where g: "get_job_states B (belonging_jobs s) e = (js, ea)"
    by (cases "get_job_states B (belonging_jobs s) e")
  with assms have r: "s1 = s\<lparr>belonging_jobs := js\<rparr>" "e1 = ea"
    by (simp_all add: get_submission_state_def)
  from get_job_states_props [OF g] r
  show "map job_hash (belonging_jobs s1) = map job_hash (belonging_jobs s)"
    and "\<forall>j \<in> set (belonging_jobs s1). \<exists>st. job_state j = Status st"
    and "\<exists>ext. trace e1 = trace e @ ext \<and> checked ext = map job_hash (belonging_jobs s)
            \<and> written ext = [] \<and> submits ext = []"
    and "submission_hash s1 = submission_hash s"
    by simp_all
qed

lemma submission_to_json_props:
  assumes "submission_to_json B H s e = (s1, e1)"
  shows "\<forall>j \<in> set (belonging_jobs s1). \<exists>st. job_state j = Status st"
    and "\<exists>ext. trace e1 = trace e @ ext @
            [EvWriteFile (submission_hash s @ ''.json'')
               (json_dumps (Submission_serialize H False s1))]
          \<and> written ext = [] \<and> submits ext = []"
    and "submission_hash s1 = submission_hash s"
    and "map job_hash (belonging_jobs s1) = map job_hash (belonging_jobs s)"
proof -
  obtain sa ea where g: "get_submission_state B s e = (sa, ea)"
    by (cases "get_submission_state B s e")
  with assms have r: "s1 = sa"
    "e1 = emit (EvWriteFile (submission_hash sa @ ''.json'')
                  (json_dumps (Submission_serialize H False sa)))
            (ea\<lparr>world := write_file B (submission_hash sa @ ''.json'')
                   (json_dumps (Submission_serialize H False sa)) (world ea)\<rparr>)"
    by (auto simp add: submission_to_json_def Let_def)
  note p = get_submission_state_props [OF g]
  show "\<forall>j \<in> set (belonging_jobs s1). \<exists>st. job_state j = Status st" using p(2) r(1) by simp
  show "submission_hash s1 = submission_hash s" using p(4) r(1) by simp
  show "map job_hash (belonging_jobs s1) = map job_hash (belonging_jobs s)"
    using p(1) r(1) by simp
  from p(3) obtain ext where "trace ea = trace e @ ext" "written ext = []" "submits ext = []"
    by blast
  then show "\<exists>ext. trace e1 = trace e @ ext @
            [EvWriteFile (submission_hash s @ ''.json'')
               (json_dumps (Submission_serialize H False s1))]
          \<and> written ext = [] \<and> submits ext = []"
    using r p(4) by (simp add: emit_def)
qed

lemma finished_iff_not_listed:
  "(Status st \<in> set [Status running, Status waiting, Status unsubmitted, Status completing,
                     Status terminated, Status unknown]) = (st \<noteq> finished)"
  by (cases st) simp_all

lemma all_finished_iff:
  assumes "\<forall>j \<in> set js. \<exists>st. job_state j = Status st"
  shows "(\<not> list_ex (\<lambda>job. job_state job \<in>
            set [Status running, Status waiting, Status unsubmitted, Status completing,
                 Status terminated, Status unknown]) js)
         = (\<forall>j \<in> set js. job_state j = Status finished)"
proof -
  have "(job_state j \<in> set [Status running, Status waiting, Status unsubmitted,
            Status completing, Status terminated, Status unknown])
        = (job_state j \<noteq> Status finished)" if "j \<in> set js" for j
  proof -
    from assms that obtain st where "job_state j = Status st" by blast
    then show ?thesis using finished_iff_not_listed [of st] by simp
  qed
  then show ?thesis unfolding list_ex_iff by blast
qed

lemma length_polled: "length (fst (polled B js w)) = length js"
proof (induction js arbitrary: w)
  case Nil
  then show ?case by simp
next
  case (Cons j js)
  obtain st w1 where c: "check_status B j w = (st, w1)" by (cases "check_status B j w")
  obtain sts w2 where p: "polled B js w1 = (sts, w2)" by (cases "polled B js w1")
  from Cons [of w1] p have "length sts = length js" by simp
  with c p show ?case by simp
qed

lemma with_states_Cons: "with_states (j # js) (st # sts) = j\<lparr>job_state := Status st\<rparr> # with_states js sts"
  by (simp add: with_states_def)

lemma with_states_Nil: "with_states [] sts = []"
  by (simp add: with_states_def)

lemma with_states_twice:
  "length sts1 = length js \<Longrightarrow> with_states (with_states js sts1) sts2 = with_states js sts2"
proof (induction js arbitrary: sts1 sts2)
  case Nil
  then show ?case by (simp add: with_states_def)
next
  case (Cons j js)
  then obtain a as where s1: "sts1 = a # as" by (cases sts1) auto
  show ?case
  proof (cases sts2)
    case Nil
    then show ?thesis by (simp add: with_states_def)
  next
    case (Cons b bs)
    with Cons.IH [of as bs] Cons.prems s1 show ?thesis
      by (simp add: with_states_Cons)
  qed
qed

lemma job_state_with_states:
  "length sts = length js \<Longrightarrow> map job_state (with_states js sts) = map Status sts"
proof (induction js arbitrary: sts)
  case Nil
  then show ?case by (simp add: with_states_def)
next
  case (Cons j js)
  then obtain a as where "sts = a # as" by (cases sts) auto
  with Cons show ?case by (simp add: with_states_Cons)
qed

lemma get_job_states_polled:
  "polled B js (world e) = (sts, w) \<Longrightarrow>
     \<exists>e1. get_job_states B js e = (with_states js sts, e1) \<and> world e1 = w"
proof (induction js arbitrary: e sts w)
  case Nil
  then show ?case by (simp add: with_states_def)
next
  case (Cons j js)
  obtain st w1 where cs: "check_status B j (world e) = (st, w1)"
    by (cases "check_status B j (world e)")
  obtain sts' w2 where pl: "polled B js w1 = (sts', w2)" by (cases "polled B js w1")
  from Cons.prems cs pl have res: "sts = st # sts'" "w = w2" by simp_all
  let ?j1 = "j\<lparr>job_state := Status st\<rparr>"
  let ?e1 = "emit (EvCheckStatus (job_hash j) st) (e\<lparr>world := w1\<rparr>)"
  let ?e2 = "emit (EvPrint (PDebugJob (job_hash ?j1) (job_id ?j1) (job_state ?j1))) ?e1"
  have gj: "get_job_state B j e = (?j1, ?e1)" using cs by (simp add: get_job_state_def)
  have "world ?e2 = w1" by (simp add: emit_def)
  with pl have "polled B js (world ?e2) = (sts', w2)" by simp
  from Cons.IH [OF this] obtain e3 where
    r: "get_job_states B js ?e2 = (with_states js sts', e3)" and w3: "world e3 = w2"
    by blast
  have "get_job_states B (j # js) e = (?j1 # with_states js sts', e3)"
    using gj r by simp
  with res w3 show ?case by (simp add: with_states_Cons)
qed

lemma get_submission_state_polled:
  assumes "polled B (belonging_jobs s) (world e) = (sts, w)"
  shows "\<exists>e1. get_submission_state B s e
            = (s\<lparr>belonging_jobs := with_states (belonging_jobs s) sts\<rparr>, e1)
          \<and> world e1 = w"
  using get_job_states_polled [OF assms] by (auto simp add: get_submission_state_def)

lemma list_ex_with_states:
  "length sts = length js \<Longrightarrow>
     list_ex (\<lambda>job. job_state job \<in> set [Status terminated, Status unknown]) (with_states js sts)
       = (terminated \<in> set sts \<or> unknown \<in> set sts)"
proof -
  assume "length sts = length js"
  from job_state_with_states [OF this]
  have m: "map job_state (with_states js sts) = map Status sts" .
  have "list_ex (\<lambda>job. job_state job \<in> set [Status terminated, Status unknown]) (with_states js sts)
      = (\<exists>x \<in> set (map job_state (with_states js sts)). x = Status terminated \<or> x = Status unknown)"
    unfolding list_ex_iff by auto
  also have "\<dots> = (terminated \<in> set sts \<or> unknown \<in> set sts)"
    unfolding m by auto
  finally show ?thesis .
qed

lemma all_finished_with_states:
  "length sts = length js \<Longrightarrow>
     (\<forall>j \<in> set (with_states js sts). job_state j = Status finished)
       = (\<forall>st \<in> set sts. st = finished)"
proof -
  assume "length sts = length js"
  from job_state_with_states [OF this]
  have m: "map job_state (with_states js sts) = map Status sts" .
  have "(\<forall>j \<in> set (with_states js sts). job_state j = Status finished)
      = (\<forall>x \<in> set (map job_state (with_states js sts)). x = Status finished)"
    by auto
  also have "\<dots> = (\<forall>st \<in> set sts. st = finished)" unfolding m by auto
  finally show ?thesis .
qed

text \<open>
  C5 (as amended). A call of \<^verbatim>\<open>check_all_finished\<close> starts with \<^verbatim>\<open>get_submission_state\<close>:
  every Job, in order, gets the status \<open>sts1\<close> the Batch reports for it, and nothing is
  written. If none of these is \<^verbatim>\<open>terminated\<close> or \<^verbatim>\<open>unknown\<close>, nothing else happens and the
  result is true exactly when all of \<open>sts1\<close> are \<^verbatim>\<open>finished\<close>. Otherwise
  \<^verbatim>\<open>submission_to_json\<close> runs: it asks the Batch a second time, the Jobs get the statuses
  \<open>sts2\<close> of this second refresh, the snapshot \<^verbatim>\<open>{submission_hash}.json\<close> of that view is
  written once, and the result is true exactly when all of \<open>sts2\<close> are \<^verbatim>\<open>finished\<close>. In
  both cases the result is true if and only if every Job the call leaves is \<^verbatim>\<open>finished\<close>;
  a Job left in any of the six other states makes it false.
\<close>

theorem check_all_finished_refreshes_then_decides:
  assumes call: "check_all_finished B H s e = (b, s', e')"
    and first: "polled B (belonging_jobs s) (world e) = (sts1, w1)"
    and second: "polled B (with_states (belonging_jobs s) sts1) w1 = (sts2, w2)"
  shows "\<exists>e1.
      get_submission_state B s e = (s\<lparr>belonging_jobs := with_states (belonging_jobs s) sts1\<rparr>, e1)
    \<and> world e1 = w1
    \<and> checked (drop (length (trace e)) (trace e1)) = map job_hash (belonging_jobs s)
    \<and> written (trace e1) = written (trace e)
    \<and> take (length (trace e1)) (trace e') = trace e1
    \<and> (if terminated \<in> set sts1 \<or> unknown \<in> set sts1
        then s' = s\<lparr>belonging_jobs := with_states (belonging_jobs s) sts2\<rparr>
           \<and> world e' = write_file B (submission_hash s @ ''.json'')
                          (json_dumps (Submission_serialize H False s')) w2
           \<and> written (trace e') = written (trace e) @
                [(submission_hash s @ ''.json'', json_dumps (Submission_serialize H False s'))]
           \<and> b = (\<forall>st \<in> set sts2. st = finished)
        else s' = s\<lparr>belonging_jobs := with_states (belonging_jobs s) sts1\<rparr>
           \<and> e' = e1
           \<and> written (trace e') = written (trace e)
           \<and> b = (\<forall>st \<in> set sts1. st = finished))
    \<and> b = (\<forall>j \<in> set (belonging_jobs s'). job_state j = Status finished)
    \<and> ((\<exists>j \<in> set (belonging_jobs s'). job_state j \<in>
           {Status running, Status waiting, Status unsubmitted, Status completing,
            Status terminated, Status unknown}) \<longrightarrow> \<not> b)"
proof -
  let ?js = "belonging_jobs s"
  let ?s1 = "s\<lparr>belonging_jobs := with_states ?js sts1\<rparr>"
  let ?s2 = "s\<lparr>belonging_jobs := with_states ?js sts2\<rparr>"
  from get_submission_state_polled [OF first]
  obtain e1 where g: "get_submission_state B s e = (?s1, e1)" and w1: "world e1 = w1"
    by blast
  note p = get_submission_state_props [OF g]
  from p(3) obtain ext where ext: "trace e1 = trace e @ ext"
    "checked ext = map job_hash (belonging_jobs s)" "written ext = []"
    by blast
  have c1: "checked (drop (length (trace e)) (trace e1)) = map job_hash (belonging_jobs s)"
    using ext by simp
  have wr1: "written (trace e1) = written (trace e)"
    using ext by (simp add: written_append)
  have l1: "length sts1 = length ?js" using length_polled [of B ?js "world e"] first by simp
  have l2: "length sts2 = length ?js"
    using length_polled [of B "with_states ?js sts1" w1] second l1
    by (simp add: with_states_def)
  let ?any = "list_ex (\<lambda>job. job_state job \<in> set [Status terminated, Status unknown])
                (belonging_jobs ?s1)"
  have any: "?any = (terminated \<in> set sts1 \<or> unknown \<in> set sts1)"
    using list_ex_with_states [OF l1] by simp
  have fin: "(\<not> list_ex (\<lambda>job. job_state job \<in>
            set [Status running, Status waiting, Status unsubmitted, Status completing,
                 Status terminated, Status unknown]) (with_states ?js sts))
      = (\<forall>st \<in> set sts. st = finished)" if "length sts = length ?js" for sts
  proof -
    have st: "\<forall>j \<in> set (with_states ?js sts). \<exists>st. job_state j = Status st"
      by (auto simp add: with_states_def dest: set_zip_leftD)
    from all_finished_iff [OF st] all_finished_with_states [OF that] show ?thesis by simp
  qed
  have branch: "(if terminated \<in> set sts1 \<or> unknown \<in> set sts1
        then s' = ?s2
           \<and> world e' = write_file B (submission_hash s @ ''.json'')
                          (json_dumps (Submission_serialize H False s')) w2
           \<and> written (trace e') = written (trace e) @
                [(submission_hash s @ ''.json'', json_dumps (Submission_serialize H False s'))]
           \<and> b = (\<forall>st \<in> set sts2. st = finished)
        else s' = ?s1 \<and> e' = e1 \<and> written (trace e') = written (trace e)
           \<and> b = (\<forall>st \<in> set sts1. st = finished))
      \<and> take (length (trace e1)) (trace e') = trace e1
      \<and> (\<exists>sts. length sts = length ?js \<and> s' = s\<lparr>belonging_jobs := with_states ?js sts\<rparr>
              \<and> b = (\<forall>st \<in> set sts. st = finished))"
  proof (cases "terminated \<in> set sts1 \<or> unknown \<in> set sts1")
    case True
    with any have a: ?any by simp
    have "polled B (belonging_jobs ?s1) (world e1) = (sts2, w2)" using second w1 by simp
    from get_submission_state_polled [OF this]
    obtain e2 where g2: "get_submission_state B ?s1 e1
          = (?s1\<lparr>belonging_jobs := with_states (belonging_jobs ?s1) sts2\<rparr>, e2)"
      and w2: "world e2 = w2"
      by blast
    have s2: "?s1\<lparr>belonging_jobs := with_states (belonging_jobs ?s1) sts2\<rparr> = ?s2"
      using with_states_twice [OF l1, of sts2] by simp
    note p2 = get_submission_state_props [OF g2]
    from p2(3) obtain ext2 where ext2: "trace e2 = trace e1 @ ext2" "written ext2 = []"
      by blast
    let ?name = "submission_hash s @ ''.json''"
    let ?doc = "json_dumps (Submission_serialize H False ?s2)"
    let ?e3 = "emit (EvWriteFile ?name ?doc) (e2\<lparr>world := write_file B ?name ?doc (world e2)\<rparr>)"
    have sj: "submission_to_json B H ?s1 e1 = (?s2, ?e3)"
      using g2 s2 by (simp add: submission_to_json_def Let_def)
    from call g a sj have res: "s' = ?s2" "e' = ?e3"
      and bb: "b = (\<not> list_ex (\<lambda>job. job_state job \<in>
            set [Status running, Status waiting, Status unsubmitted, Status completing,
                 Status terminated, Status unknown]) (belonging_jobs ?s2))"
      by (auto simp add: check_all_finished_def Let_def split: if_splits)
    have b2: "b = (\<forall>st \<in> set sts2. st = finished)" using bb fin [OF l2] by simp
    have we: "world e' = write_file B ?name (json_dumps (Submission_serialize H False s')) w2"
      using res w2 by (simp add: emit_def)
    have tr: "trace e' = trace e1 @ ext2 @ [EvWriteFile ?name ?doc]"
      using res ext2 by (simp add: emit_def)
    have wr: "written (trace e') = written (trace e) @ [(?name, ?doc)]"
      using tr ext2(2) wr1 by (simp add: written_append) (simp add: written_def)
    have tk: "take (length (trace e1)) (trace e') = trace e1" using tr by simp
    from True res b2 we wr tk l2 show ?thesis by auto
  next
    case False
    with any have a: "\<not> ?any" by simp
    from call g a have res: "s' = ?s1" "e' = e1"
      and bb: "b = (\<not> list_ex (\<lambda>job. job_state job \<in>
            set [Status running, Status waiting, Status unsubmitted, Status completing,
                 Status terminated, Status unknown]) (belonging_jobs ?s1))"
      by (auto simp add: check_all_finished_def Let_def split: if_splits)
    have b1: "b = (\<forall>st \<in> set sts1. st = finished)" using bb fin [OF l1] by simp
    from False res b1 wr1 l1 show ?thesis by auto
  qed
  from branch obtain sts where sts: "length sts = length ?js"
    "s' = s\<lparr>belonging_jobs := with_states ?js sts\<rparr>" "b = (\<forall>st \<in> set sts. st = finished)"
    by blast
  have bf: "b = (\<forall>j \<in> set (belonging_jobs s'). job_state j = Status finished)"
    using sts all_finished_with_states [OF sts(1)] by simp
  have neg: "(\<exists>j \<in> set (belonging_jobs s'). job_state j \<in>
           {Status running, Status waiting, Status unsubmitted, Status completing,
            Status terminated, Status unknown}) \<longrightarrow> \<not> b"
    using bf by auto
  show ?thesis
    apply (rule exI [of _ e1])
    apply (intro conjI)
    apply (rule g)
    apply (rule w1)
    apply (rule c1)
    apply (rule wr1)
    using branch apply blast
    using branch apply blast
    apply (rule bf)
    apply (rule neg)
    done
qed

text \<open>
  C5 as stated fails: the snapshot is decided on one view of the states and the result on
  another. On the Batch that reports \<^verbatim>\<open>terminated\<close> twice and \<^verbatim>\<open>finished\<close> afterwards, the
  first refresh of the call finds both Jobs \<^verbatim>\<open>terminated\<close>, so the snapshot is written,
  and the call returns true, on the second refresh.
\<close>

theorem check_all_finished_two_views:
  "fst (polled demo_batch_recovering (belonging_jobs demo_generated) (world demo_env))
     = [terminated, terminated]
   \<and> map job_state (belonging_jobs
        (fst (get_submission_state demo_batch_recovering demo_generated demo_env)))
       = [Status terminated, Status terminated]
   \<and> fst (check_all_finished demo_batch_recovering demo_hashing demo_generated demo_env)
   \<and> map fst (written (trace (snd (snd
        (check_all_finished demo_batch_recovering demo_hashing demo_generated demo_env)))))
       = [''wc2c1c0.json'']
   \<and> map job_state (belonging_jobs (fst (snd
        (check_all_finished demo_batch_recovering demo_hashing demo_generated demo_env))))
       = [Status finished, Status finished]"
  by code_simp

theorem check_all_finished_refreshes_then_decides_witness:
  "fst (polled demo_batch_recovering (belonging_jobs demo_generated) (world demo_env))
     = [terminated, terminated]
   \<and> fst (polled demo_batch_recovering
        (with_states (belonging_jobs demo_generated)
           (fst (polled demo_batch_recovering (belonging_jobs demo_generated) (world demo_env))))
        (snd (polled demo_batch_recovering (belonging_jobs demo_generated) (world demo_env))))
     = [finished, finished]
   \<and> fst (check_all_finished demo_batch_recovering demo_hashing demo_generated demo_env)
   \<and> fst (snd (check_all_finished demo_batch_recovering demo_hashing demo_generated demo_env))
       = demo_generated\<lparr>belonging_jobs :=
           with_states (belonging_jobs demo_generated) [finished, finished]\<rparr>
   \<and> written (trace (snd (snd
        (check_all_finished demo_batch_recovering demo_hashing demo_generated demo_env))))
       = written (trace demo_env) @
           [(submission_hash demo_generated @ ''.json'',
             json_dumps (Submission_serialize demo_hashing False
               (fst (snd (check_all_finished demo_batch_recovering demo_hashing demo_generated
                            demo_env)))))]"
proof -
  let ?B = demo_batch_recovering
  let ?js = "belonging_jobs demo_generated"
  let ?r = "check_all_finished ?B demo_hashing demo_generated demo_env"
  let ?p = "polled ?B ?js (world demo_env)"
  let ?q = "polled ?B (with_states ?js (fst ?p)) (snd ?p)"
  have h1: "?r = (fst ?r, fst (snd ?r), snd (snd ?r))" by simp
  have h2: "?p = (fst ?p, snd ?p)" by simp
  have h3: "?q = (fst ?q, snd ?q)" by simp
  have fp: "fst ?p = [terminated, terminated]" by code_simp
  have fq: "fst ?q = [finished, finished]" by code_simp
  have t: "terminated \<in> set (fst ?p)" by (simp add: fp)
  from check_all_finished_refreshes_then_decides [OF h1 h2 h3]
  obtain e1 where
    "if terminated \<in> set (fst ?p) \<or> unknown \<in> set (fst ?p)
        then fst (snd ?r) = demo_generated\<lparr>belonging_jobs := with_states ?js (fst ?q)\<rparr>
           \<and> world (snd (snd ?r)) = write_file ?B (submission_hash demo_generated @ ''.json'')
                (json_dumps (Submission_serialize demo_hashing False (fst (snd ?r)))) (snd ?q)
           \<and> written (trace (snd (snd ?r))) = written (trace demo_env) @
                [(submission_hash demo_generated @ ''.json'',
                  json_dumps (Submission_serialize demo_hashing False (fst (snd ?r))))]
           \<and> fst ?r = (\<forall>st \<in> set (fst ?q). st = finished)
        else fst (snd ?r) = demo_generated\<lparr>belonging_jobs := with_states ?js (fst ?p)\<rparr>
           \<and> snd (snd ?r) = e1
           \<and> written (trace (snd (snd ?r))) = written (trace demo_env)
           \<and> fst ?r = (\<forall>st \<in> set (fst ?p). st = finished)"
    by blast
  with t have a: "fst (snd ?r) = demo_generated\<lparr>belonging_jobs := with_states ?js (fst ?q)\<rparr>"
    and w: "written (trace (snd (snd ?r))) = written (trace demo_env) @
                [(submission_hash demo_generated @ ''.json'',
                  json_dumps (Submission_serialize demo_hashing False (fst (snd ?r))))]"
    and b: "fst ?r = (\<forall>st \<in> set (fst ?q). st = finished)"
    by (simp_all only: if_True simp_thms)
  have a': "fst (snd ?r) = demo_generated\<lparr>belonging_jobs := with_states ?js [finished, finished]\<rparr>"
    using a by (simp only: fq)
  have b': "fst ?r" using b by (simp add: fq)
  have fq': "fst (polled ?B (with_states ?js (fst ?p)) (snd ?p)) = [finished, finished]"
    by (rule fq)
  show ?thesis using fp fq' b' a' w by (intro conjI)
qed

subsection \<open>C2: the retry budget\<close>



lemma Job_serialize_key: "map fst (Job_serialize H b j) = [Job_get_hash H j]"
  by (simp add: Job_serialize_def Job_get_hash_def Let_def)







subsection \<open>Unfolding the driver\<close>

lemma run_submission_enters_loop:
  "\<not> isl (before_loop B H s e) \<Longrightarrow>
     run_submission B H time_sleep s e =
       polling_loop B H time_sleep (fst (projr (before_loop B H s e)))
         (snd (projr (before_loop B H s e)))"
  by (cases "before_loop B H s e") (simp_all add: run_submission_def split: prod.splits)

lemma polling_loop_ends_in_body:
  assumes "\<not> fst (check_all_finished B H s e)"
    and "isl (loop_body B H time_sleep (fst (snd (check_all_finished B H s e)))
          (snd (snd (check_all_finished B H s e))))"
  shows "polling_loop B H time_sleep s e =
     Some (projl (loop_body B H time_sleep (fst (snd (check_all_finished B H s e)))
                    (snd (snd (check_all_finished B H s e)))))"
proof -
  obtain fin s1 e1 where c: "check_all_finished B H s e = (fin, s1, e1)"
    by (cases "check_all_finished B H s e")
  with assms obtain r where l: "loop_body B H time_sleep s1 e1 = Inl r" and f: "\<not> fin"
    by (cases "loop_body B H time_sleep s1 e1") simp_all
  show ?thesis using c l f by (subst polling_loop.simps) simp
qed

lemma polling_loop_continues:
  assumes "\<not> fst (check_all_finished B H s e)"
    and "\<not> isl (loop_body B H time_sleep (fst (snd (check_all_finished B H s e)))
          (snd (snd (check_all_finished B H s e))))"
  shows "polling_loop B H time_sleep s e =
     polling_loop B H time_sleep
       (fst (projr (loop_body B H time_sleep (fst (snd (check_all_finished B H s e)))
                    (snd (snd (check_all_finished B H s e))))))
       (snd (projr (loop_body B H time_sleep (fst (snd (check_all_finished B H s e)))
                    (snd (snd (check_all_finished B H s e))))))"
proof -
  obtain fin s1 e1 where c: "check_all_finished B H s e = (fin, s1, e1)"
    by (cases "check_all_finished B H s e")
  with assms obtain s2 e2 where l: "loop_body B H time_sleep s1 e1 = Inr (s2, e2)"
    and f: "\<not> fin"
    by (cases "loop_body B H time_sleep s1 e1") auto
  show ?thesis using c l f by (subst polling_loop.simps) simp
qed

lemma polling_loop_finishes:
  assumes "fst (check_all_finished B H s e)"
  shows "polling_loop B H time_sleep s e =
     Some (after_loop B H (fst (snd (check_all_finished B H s e)))
             (snd (snd (check_all_finished B H s e))))"
proof -
  obtain fin s1 e1 where c: "check_all_finished B H s e = (fin, s1, e1)"
    by (cases "check_all_finished B H s e")
  with assms show ?thesis by (subst polling_loop.simps) simp
qed

lemma check_all_finished_hash:
  assumes "check_all_finished B H s e = (b, s1, e1)"
  shows "submission_hash s1 = submission_hash s"
proof -
  obtain sa ea where g: "get_submission_state B s e = (sa, ea)"
    by (cases "get_submission_state B s e")
  note p = get_submission_state_props [OF g]
  show ?thesis
  proof (cases "list_ex (\<lambda>job. job_state job \<in> set [Status terminated, Status unknown])
                  (belonging_jobs sa)")
    case True
    with assms g have "submission_to_json B H sa ea = (s1, e1)"
      by (auto simp add: check_all_finished_def Let_def split: prod.splits if_splits)
    from submission_to_json_props(3) [OF this] p(4) show ?thesis by simp
  next
    case False
    with assms g have "s1 = sa"
      by (auto simp add: check_all_finished_def Let_def split: prod.splits if_splits)
    with p(4) show ?thesis by simp
  qed
qed

subsection \<open>C3: interruption of the polling loop\<close>

text \<open>
  C3 (as amended). When an iteration of the polling loop is reached (\<^verbatim>\<open>check_all_finished\<close>
  is false) and its sleep ends with an interruption \<open>k\<close> (a user cancel, an exit request
  or any other exception), the driver calls \<^verbatim>\<open>submission_to_json\<close>, whose last action
  writes \<^verbatim>\<open>{submission_hash}.json\<close>, then prints the four diagnostic lines, among them
  the submission hash, and exits with code 1, 2 or 3 according to \<open>k\<close>.
\<close>

theorem polling_loop_interrupted_at_sleep:
  assumes "check_all_finished B H s e = (False, s1, e1)"
    and "time_sleep (world e1) = (Some k, w)"
  shows "\<exists>s2 e2 ext.
      submission_to_json B H s1 (emit EvSleep (e1\<lparr>world := w\<rparr>)) = (s2, e2)
    \<and> trace e2 = trace e1 @ [EvSleep] @ ext @
         [EvWriteFile (submission_hash s @ ''.json'')
            (json_dumps (Submission_serialize H False s2))]
    \<and> written ext = []
    \<and> submission_hash s2 = submission_hash s
    \<and> polling_loop B H time_sleep s e =
        Some (Exited
          (case k of KeyboardInterrupt \<Rightarrow> 1 | SystemExit \<Rightarrow> 2 | OtherException msg \<Rightarrow> 3)
          s2
          (e2\<lparr>trace := trace e2 @
             [EvPrint (PLine (''<<<<<<dpdispatcher<<<<<<''
                @ (case k of KeyboardInterrupt \<Rightarrow> ''KeyboardInterrupt''
                   | SystemExit \<Rightarrow> ''SystemExit'' | OtherException msg \<Rightarrow> msg)
                @ ''<<<<<<exit<<<<<<'')),
              EvPrint (PSubmissionHash (submission_hash s2)),
              EvPrint (PSerialize (Submission_serialize H False s2)),
              EvPrint (PLine (''>>>>>>dpdispatcher>>>>>>''
                @ (case k of KeyboardInterrupt \<Rightarrow> ''KeyboardInterrupt''
                   | SystemExit \<Rightarrow> ''SystemExit'' | OtherException msg \<Rightarrow> msg)
                @ ''>>>>>>exit>>>>>>''))]\<rparr>))"
proof -
  let ?e = "emit EvSleep (e1\<lparr>world := w\<rparr>)"
  obtain s2 e2 where sj: "submission_to_json B H s1 ?e = (s2, e2)"
    by (cases "submission_to_json B H s1 ?e")
  note q = submission_to_json_props [OF sj]
  have h1: "submission_hash s1 = submission_hash s"
    by (rule check_all_finished_hash [OF assms(1)])
  from q(2) obtain ext where tr: "trace e2 = trace ?e @ ext @
            [EvWriteFile (submission_hash s1 @ ''.json'')
               (json_dumps (Submission_serialize H False s2))]"
    and w: "written ext = []"
    by blast
  have tr': "trace e2 = trace e1 @ [EvSleep] @ ext @
         [EvWriteFile (submission_hash s @ ''.json'')
            (json_dumps (Submission_serialize H False s2))]"
    using tr h1 by (simp add: emit_def)
  have h2: "submission_hash s2 = submission_hash s" using q(3) h1 by simp
  have ex: "except_clause B H what code s1 ?e =
      Exited code s2
        (e2\<lparr>trace := trace e2 @
           [EvPrint (PLine (''<<<<<<dpdispatcher<<<<<<'' @ what @ ''<<<<<<exit<<<<<<'')),
            EvPrint (PSubmissionHash (submission_hash s2)),
            EvPrint (PSerialize (Submission_serialize H False s2)),
            EvPrint (PLine (''>>>>>>dpdispatcher>>>>>>'' @ what @ ''>>>>>>exit>>>>>>''))]\<rparr>)"
    for what code
    using sj by (simp add: except_clause_def Let_def emit_def)
  have lb: "loop_body B H time_sleep s1 e1 =
      Inl (except_clause B H
        (case k of KeyboardInterrupt \<Rightarrow> ''KeyboardInterrupt''
         | SystemExit \<Rightarrow> ''SystemExit'' | OtherException msg \<Rightarrow> msg)
        (case k of KeyboardInterrupt \<Rightarrow> 1 | SystemExit \<Rightarrow> 2 | OtherException msg \<Rightarrow> 3)
        s1 ?e)"
    using assms(2) by (cases k) (simp_all add: loop_body_def Let_def)
  have pl: "polling_loop B H time_sleep s e =
      Some (except_clause B H
        (case k of KeyboardInterrupt \<Rightarrow> ''KeyboardInterrupt''
         | SystemExit \<Rightarrow> ''SystemExit'' | OtherException msg \<Rightarrow> msg)
        (case k of KeyboardInterrupt \<Rightarrow> 1 | SystemExit \<Rightarrow> 2 | OtherException msg \<Rightarrow> 3)
        s1 ?e)"
    using assms(1) lb by (subst polling_loop.simps) simp
  show ?thesis
    apply (rule exI [of _ s2])
    apply (rule exI [of _ e2])
    apply (rule exI [of _ ext])
    apply (intro conjI)
    apply (rule sj)
    apply (rule tr')
    apply (rule w)
    apply (rule h2)
    apply (simp only: pl ex)
    done
qed

theorem polling_loop_interrupted_at_sleep_witness:
  "check_all_finished (demo_batch demo_scheduler) demo_hashing demo_generated demo_env
     = (False,
        fst (snd (check_all_finished (demo_batch demo_scheduler) demo_hashing demo_generated
                    demo_env)),
        snd (snd (check_all_finished (demo_batch demo_scheduler) demo_hashing demo_generated
                    demo_env)))
   \<and> demo_cancel (world (snd (snd (check_all_finished (demo_batch demo_scheduler) demo_hashing
          demo_generated demo_env))))
       = (Some KeyboardInterrupt,
          world (snd (snd (check_all_finished (demo_batch demo_scheduler) demo_hashing
             demo_generated demo_env))))
   \<and> exit_code_of (polling_loop (demo_batch demo_scheduler) demo_hashing demo_cancel
        demo_generated demo_env) = Some 1
   \<and> (\<exists>pre d1 d2. result_trace (polling_loop (demo_batch demo_scheduler) demo_hashing
          demo_cancel demo_generated demo_env) =
        pre @ [EvWriteFile (submission_hash demo_generated @ ''.json'') d1,
               EvPrint (PLine ''<<<<<<dpdispatcher<<<<<<KeyboardInterrupt<<<<<<exit<<<<<<''),
               EvPrint (PSubmissionHash (submission_hash demo_generated)),
               EvPrint (PSerialize d2),
               EvPrint (PLine ''>>>>>>dpdispatcher>>>>>>KeyboardInterrupt>>>>>>exit>>>>>>'')])"
proof -
  let ?c = "check_all_finished (demo_batch demo_scheduler) demo_hashing demo_generated demo_env"
  have f: "fst ?c = False" by code_simp
  have h1: "?c = (False, fst (snd ?c), snd (snd ?c))"
    using f by (metis prod.collapse)
  have h2: "demo_cancel (world (snd (snd ?c))) = (Some KeyboardInterrupt, world (snd (snd ?c)))"
    by (simp add: demo_cancel_def)
  from polling_loop_interrupted_at_sleep
    [where B = "demo_batch demo_scheduler" and H = demo_hashing and s = demo_generated
       and e = demo_env and time_sleep = demo_cancel and k = KeyboardInterrupt
       and ?s1.0 = "fst (snd ?c)" and ?e1.0 = "snd (snd ?c)" and w = "world (snd (snd ?c))",
     OF h1 h2]
  obtain s2 e2 ext where
    tr: "trace e2 = trace (snd (snd ?c)) @ [EvSleep] @ ext @
         [EvWriteFile (submission_hash demo_generated @ ''.json'')
            (json_dumps (Submission_serialize demo_hashing False s2))]"
    and hs: "submission_hash s2 = submission_hash demo_generated"
    and pl: "polling_loop (demo_batch demo_scheduler) demo_hashing demo_cancel demo_generated
        demo_env =
        Some (Exited 1 s2
          (e2\<lparr>trace := trace e2 @
             [EvPrint (PLine (''<<<<<<dpdispatcher<<<<<<'' @ ''KeyboardInterrupt''
                @ ''<<<<<<exit<<<<<<'')),
              EvPrint (PSubmissionHash (submission_hash s2)),
              EvPrint (PSerialize (Submission_serialize demo_hashing False s2)),
              EvPrint (PLine (''>>>>>>dpdispatcher>>>>>>'' @ ''KeyboardInterrupt''
                @ ''>>>>>>exit>>>>>>''))]\<rparr>))"
    by auto
  have c1: "exit_code_of (polling_loop (demo_batch demo_scheduler) demo_hashing demo_cancel
        demo_generated demo_env) = Some 1"
    by (simp add: pl)
  have c2: "\<exists>pre d1 d2. result_trace (polling_loop (demo_batch demo_scheduler) demo_hashing
          demo_cancel demo_generated demo_env) =
        pre @ [EvWriteFile (submission_hash demo_generated @ ''.json'') d1,
               EvPrint (PLine ''<<<<<<dpdispatcher<<<<<<KeyboardInterrupt<<<<<<exit<<<<<<''),
               EvPrint (PSubmissionHash (submission_hash demo_generated)),
               EvPrint (PSerialize d2),
               EvPrint (PLine ''>>>>>>dpdispatcher>>>>>>KeyboardInterrupt>>>>>>exit>>>>>>'')]"
    apply (rule exI [of _ "trace (snd (snd ?c)) @ [EvSleep] @ ext"])
    apply (rule exI [of _ "json_dumps (Submission_serialize demo_hashing False s2)"])
    apply (rule exI [of _ "Submission_serialize demo_hashing False s2"])
    apply (simp add: pl tr hs)
    done
  show ?thesis using h1 h2 c1 c2 by (intro conjI)
qed

text \<open>
  C3 as stated fails for an exception that arises in an iteration outside the sleep: in
  the run of the sample Submission on the Batch that turns to \<^verbatim>\<open>unknown\<close>, the first
  iteration sleeps, then the handler in the \<^verbatim>\<open>else\<close> clause raises; the run ends with that
  exception and not with an exit code, and nothing is written or printed after the sleep.
\<close>

theorem polling_loop_handler_error_escapes:
  "run_submission demo_batch_flaky demo_hashing demo_tick demo_generated demo_env
     = polling_loop demo_batch_flaky demo_hashing demo_tick
         (fst demo_flaky_loop_entry) (snd demo_flaky_loop_entry)
   \<and> raised_error (polling_loop demo_batch_flaky demo_hashing demo_tick
         (fst demo_flaky_loop_entry) (snd demo_flaky_loop_entry))
      = Some (JobRuntimeError ''job_state for job {job} is unknown''
          [(''c2c1'', [Task_serialize (demo_task ''c2''), Task_serialize (demo_task ''c1'')],
            Resources_serialize demo_resources, Some (Status unknown, [], 0))])
   \<and> exit_code_of (polling_loop demo_batch_flaky demo_hashing demo_tick
         (fst demo_flaky_loop_entry) (snd demo_flaky_loop_entry)) = None
   \<and> last (result_trace (polling_loop demo_batch_flaky demo_hashing demo_tick
         (fst demo_flaky_loop_entry) (snd demo_flaky_loop_entry))) = EvSleep"
proof -
  let ?c = "check_all_finished demo_batch_flaky demo_hashing
     (fst demo_flaky_loop_entry) (snd demo_flaky_loop_entry)"
  let ?l = "loop_body demo_batch_flaky demo_hashing demo_tick (fst (snd ?c)) (snd (snd ?c))"
  have s0: "\<not> isl (before_loop demo_batch_flaky demo_hashing demo_generated demo_env)"
    by code_simp
  have s1: "\<not> fst ?c" by code_simp
  have s2: "isl ?l" by code_simp
  have s3: "raised_error (Some (projl ?l))
     = Some (JobRuntimeError ''job_state for job {job} is unknown''
          [(''c2c1'', [Task_serialize (demo_task ''c2''), Task_serialize (demo_task ''c1'')],
            Resources_serialize demo_resources, Some (Status unknown, [], 0))])"
    by code_simp
  have s4: "exit_code_of (Some (projl ?l)) = None" by code_simp
  have s5: "last (result_trace (Some (projl ?l))) = EvSleep" by code_simp
  have r: "run_submission demo_batch_flaky demo_hashing demo_tick demo_generated demo_env
     = polling_loop demo_batch_flaky demo_hashing demo_tick
         (fst demo_flaky_loop_entry) (snd demo_flaky_loop_entry)"
    using run_submission_enters_loop [OF s0] by (simp add: demo_flaky_loop_entry_def)
  have p: "polling_loop demo_batch_flaky demo_hashing demo_tick
         (fst demo_flaky_loop_entry) (snd demo_flaky_loop_entry) = Some (projl ?l)"
    by (rule polling_loop_ends_in_body [OF s1 s2])
  show ?thesis using r s3 s4 s5 by (simp only: p)
qed

subsection \<open>C6: no snapshot before the polling loop\<close>

text \<open>
  C6. The run of the sample Submission on the scheduler mock reaches the polling loop
  after the upload and the initial submission of both Jobs, which are then running; no
  file has been written at that point.
\<close>

theorem before_loop_writes_no_snapshot:
  "run_submission (demo_batch demo_scheduler) demo_hashing demo_cancel demo_generated demo_env
     = polling_loop (demo_batch demo_scheduler) demo_hashing demo_cancel
         (fst demo_loop_entry) (snd demo_loop_entry)
   \<and> filter (\<lambda>ev. ev = EvUpload) (trace (snd demo_loop_entry)) = [EvUpload]
   \<and> submits (trace (snd demo_loop_entry)) = [''c2c1'', ''c0'']
   \<and> map job_state (belonging_jobs (fst demo_loop_entry)) = [Status running, Status running]
   \<and> written (trace (snd demo_loop_entry)) = []
   \<and> files (world (snd demo_loop_entry)) = []"
proof -
  have s0: "\<not> isl (before_loop (demo_batch demo_scheduler) demo_hashing demo_generated
      demo_env)"
    by code_simp
  have r: "run_submission (demo_batch demo_scheduler) demo_hashing demo_cancel demo_generated
      demo_env
     = polling_loop (demo_batch demo_scheduler) demo_hashing demo_cancel
         (fst demo_loop_entry) (snd demo_loop_entry)"
    using run_submission_enters_loop [OF s0] by (simp add: demo_loop_entry_def)
  have a: "filter (\<lambda>ev. ev = EvUpload) (trace (snd demo_loop_entry)) = [EvUpload]"
    by code_simp
  have b: "submits (trace (snd demo_loop_entry)) = [''c2c1'', ''c0'']" by code_simp
  have c: "map job_state (belonging_jobs (fst demo_loop_entry))
      = [Status running, Status running]"
    by code_simp
  have d: "written (trace (snd demo_loop_entry)) = []" by code_simp
  have f: "files (world (snd demo_loop_entry)) = []" by code_simp
  show ?thesis using r a b c d f by (intro conjI)
qed

subsection \<open>C4: recovery from the snapshot\<close>

lemma Job_deserialize_runtime:
  assumes "Job_deserialize H jd = Inr j"
  shows "\<exists>jh tds rd. jd = [(jh, tds, rd, Some (job_state j, job_id j, fail_count j))]"
proof -
  from assms have len: "length jd = 1" by (auto simp add: Job_deserialize_def split: if_splits)
  then obtain x where jd: "jd = [x]" by (cases jd) auto
  obtain jh tds rd rt where x: "x = (jh, tds, rd, rt)" by (cases x)
  from assms jd x have "rt = Some (job_state j, job_id j, fail_count j)"
    by (auto simp add: Job_deserialize_def Let_def split: sum.splits option.splits)
  with jd x show ?thesis by blast
qed

lemma Job_deserialize_list_runtime:
  "Job_deserialize_list H jds = Inr js \<Longrightarrow>
     map (\<lambda>j. Some (job_state j, job_id j, fail_count j)) js
       = map (\<lambda>jd. snd (snd (snd (hd jd)))) jds"
proof (induction jds arbitrary: js)
  case Nil
  then show ?case by simp
next
  case (Cons jd jds)
  from Cons.prems obtain j js' where j: "Job_deserialize H jd = Inr j"
    and r: "Job_deserialize_list H jds = Inr js'" and e: "js = j # js'"
    by (auto split: sum.splits)
  from Job_deserialize_runtime [OF j] Cons.IH [OF r] e show ?case by auto
qed

lemma Submission_deserialize_props:
  assumes "Submission_deserialize H d = Inr sub"
  shows "map (\<lambda>j. Some (job_state j, job_id j, fail_count j)) (belonging_jobs sub)
           = map (\<lambda>jd. snd (snd (snd (hd jd)))) (snd (snd (snd (snd d))))"
    and "submission_hash sub = get_hash H sub"
    and "belonging_tasks sub = []"
proof -
  obtain wb rd fcf bcf jobs where d: "d = (wb, rd, fcf, bcf, jobs)" by (cases d)
  from assms d obtain r js where r: "Resources_deserialize rd = Inr r"
    and js: "Job_deserialize_list H jobs = Inr js"
    and sub: "sub = bind_batch_None H
        (((Submission_init H wb r fcf bcf)\<lparr>belonging_jobs := js\<rparr>)
           \<lparr>submission_hash := get_hash H
              ((Submission_init H wb r fcf bcf)\<lparr>belonging_jobs := js\<rparr>)\<rparr>)"
    by (auto simp add: Submission_deserialize_def Let_def split: sum.splits)
  have gh: "get_hash H (s\<lparr>submission_hash := h\<rparr>) = get_hash H s" for s h
    by (simp add: get_hash_def Submission_serialize_def)
  from sub show "submission_hash sub = get_hash H sub"
    by (simp add: bind_batch_None_def gh)
  from sub show "belonging_tasks sub = []"
    by (simp add: bind_batch_None_def Submission_init_def)
  from sub have "belonging_jobs sub = js" by (simp add: bind_batch_None_def)
  with Job_deserialize_list_runtime [OF js] d
  show "map (\<lambda>j. Some (job_state j, job_id j, fail_count j)) (belonging_jobs sub)
           = map (\<lambda>jd. snd (snd (snd (hd jd)))) (snd (snd (snd (snd d))))"
    by simp
qed

text \<open>
  C4. \<^verbatim>\<open>try_recover_from_json\<close> looks for the file \<^verbatim>\<open>{submission_hash}.json\<close>. Without
  it, the Submission and the world stay as they are. With it, and a content that
  deserializes to a Submission \<open>d\<close>: if \<open>d\<close> equals the Submission statically, the
  Submission takes the Jobs of \<open>d\<close>, whose runtime triples are those of the file, keeps its
  other attributes, and its hash is recomputed to the same value (it is unchanged when it
  was up to date); otherwise the call raises \<^verbatim>\<open>RuntimeError("Recover failed.")\<close> and leaves
  the Submission and the world as they are.
\<close>

theorem try_recover_from_json_cases:
  "(\<not> check_file_exists B (submission_hash s @ ''.json'') (world e) \<longrightarrow>
      (\<exists>e'. try_recover_from_json B H s e = Inr (s, e') \<and> world e' = world e))
   \<and> (check_file_exists B (submission_hash s @ ''.json'') (world e)
        \<and> Submission_deserialize H (read_file B (submission_hash s @ ''.json'') (world e))
            = Inr d
        \<and> Submission_eq H s d \<longrightarrow>
      (\<exists>s' e'. try_recover_from_json B H s e = Inr (s', e')
         \<and> belonging_jobs s' = belonging_jobs d
         \<and> map (\<lambda>j. Some (job_state j, job_id j, fail_count j)) (belonging_jobs s')
             = map (\<lambda>jd. snd (snd (snd (hd jd))))
                 (snd (snd (snd (snd (read_file B (submission_hash s @ ''.json'') (world e))))))
         \<and> submission_hash s' = get_hash H s
         \<and> (submission_hash s = get_hash H s \<longrightarrow> submission_hash s' = submission_hash s)
         \<and> work_base s' = work_base s \<and> resources s' = resources s
         \<and> forward_common_files s' = forward_common_files s
         \<and> backward_common_files s' = backward_common_files s
         \<and> belonging_tasks s' = belonging_tasks s))
   \<and> (check_file_exists B (submission_hash s @ ''.json'') (world e)
        \<and> Submission_deserialize H (read_file B (submission_hash s @ ''.json'') (world e))
            = Inr d
        \<and> \<not> Submission_eq H s d \<longrightarrow>
      (\<exists>e'. try_recover_from_json B H s e = Inl (RuntimeError ''Recover failed.'', s, e')
         \<and> world e' = world e))"
proof (intro conjI impI)
  assume "\<not> check_file_exists B (submission_hash s @ ''.json'') (world e)"
  then show "\<exists>e'. try_recover_from_json B H s e = Inr (s, e') \<and> world e' = world e"
    by (simp add: try_recover_from_json_def Let_def emit_def)
next
  assume a: "check_file_exists B (submission_hash s @ ''.json'') (world e)
        \<and> Submission_deserialize H (read_file B (submission_hash s @ ''.json'') (world e))
            = Inr d
        \<and> \<not> Submission_eq H s d"
  then show "\<exists>e'. try_recover_from_json B H s e = Inl (RuntimeError ''Recover failed.'', s, e')
         \<and> world e' = world e"
    by (simp add: try_recover_from_json_def Let_def emit_def)
next
  assume a: "check_file_exists B (submission_hash s @ ''.json'') (world e)
        \<and> Submission_deserialize H (read_file B (submission_hash s @ ''.json'') (world e))
            = Inr d
        \<and> Submission_eq H s d"
  let ?s1 = "s\<lparr>belonging_jobs := belonging_jobs d\<rparr>"
  let ?s2 = "?s1\<lparr>submission_hash := get_hash H ?s1\<rparr>"
  from a have "\<exists>e'. try_recover_from_json B H s e = Inr (?s2, e')"
    by (simp add: try_recover_from_json_def Let_def emit_def bind_batch_def)
  then obtain e' where r: "try_recover_from_json B H s e = Inr (?s2, e')" by blast
  from a have "Submission_serialize H True s = Submission_serialize H True d"
    by (simp add: Submission_eq_def)
  then have "Submission_serialize H True ?s1 = Submission_serialize H True s"
    by (simp add: Submission_serialize_def)
  then have h: "get_hash H ?s1 = get_hash H s" by (simp add: get_hash_def)
  from a have dd: "Submission_deserialize H
      (read_file B (submission_hash s @ ''.json'') (world e)) = Inr d"
    by simp
  note p = Submission_deserialize_props(1) [OF dd]
  show "\<exists>s' e'. try_recover_from_json B H s e = Inr (s', e')
         \<and> belonging_jobs s' = belonging_jobs d
         \<and> map (\<lambda>j. Some (job_state j, job_id j, fail_count j)) (belonging_jobs s')
             = map (\<lambda>jd. snd (snd (snd (hd jd))))
                 (snd (snd (snd (snd (read_file B (submission_hash s @ ''.json'') (world e))))))
         \<and> submission_hash s' = get_hash H s
         \<and> (submission_hash s = get_hash H s \<longrightarrow> submission_hash s' = submission_hash s)
         \<and> work_base s' = work_base s \<and> resources s' = resources s
         \<and> forward_common_files s' = forward_common_files s
         \<and> backward_common_files s' = backward_common_files s
         \<and> belonging_tasks s' = belonging_tasks s"
    apply (rule exI [of _ ?s2])
    apply (rule exI [of _ e'])
    using r h p by simp
qed


theorem try_recover_from_json_cases_witness:
  "\<not> check_file_exists (demo_batch demo_scheduler) (submission_hash demo_generated @ ''.json'')
        (world demo_env)
   \<and> (\<exists>e'. try_recover_from_json (demo_batch demo_scheduler) demo_hashing demo_generated
               demo_env = Inr (demo_generated, e') \<and> world e' = world demo_env)
   \<and> check_file_exists (demo_batch demo_scheduler) (submission_hash demo_generated @ ''.json'')
        (world (demo_snapshot_world demo_snapshot))
   \<and> Submission_eq demo_hashing demo_generated
        (projr (Submission_deserialize demo_hashing demo_snapshot))
   \<and> (\<exists>s' e'. try_recover_from_json (demo_batch demo_scheduler) demo_hashing demo_generated
          (demo_snapshot_world demo_snapshot) = Inr (s', e')
         \<and> map (\<lambda>j. Some (job_state j, job_id j, fail_count j)) (belonging_jobs s')
             = [Some (StatusStr ''JobStatus.running'', ''42'', 1),
                Some (StatusStr ''JobStatus.running'', ''42'', 1)]
         \<and> submission_hash s' = submission_hash demo_generated
         \<and> belonging_tasks s' = belonging_tasks demo_generated)
   \<and> check_file_exists (demo_batch demo_scheduler) (submission_hash demo_generated @ ''.json'')
        (world (demo_snapshot_world demo_other_snapshot))
   \<and> \<not> Submission_eq demo_hashing demo_generated
        (projr (Submission_deserialize demo_hashing demo_other_snapshot))
   \<and> (\<exists>e'. try_recover_from_json (demo_batch demo_scheduler) demo_hashing demo_generated
          (demo_snapshot_world demo_other_snapshot)
          = Inl (RuntimeError ''Recover failed.'', demo_generated, e'))"
proof -
  let ?B = "demo_batch demo_scheduler"
  let ?n = "submission_hash demo_generated @ ''.json''"
  let ?e1 = "demo_snapshot_world demo_snapshot"
  let ?e2 = "demo_snapshot_world demo_other_snapshot"
  let ?d1 = "projr (Submission_deserialize demo_hashing demo_snapshot)"
  let ?d2 = "projr (Submission_deserialize demo_hashing demo_other_snapshot)"
  have a0: "\<not> check_file_exists ?B ?n (world demo_env)" by code_simp
  have b0: "check_file_exists ?B ?n (world ?e1)" by code_simp
  have b1: "read_file ?B ?n (world ?e1) = demo_snapshot" by code_simp
  have b2: "\<not> isl (Submission_deserialize demo_hashing demo_snapshot)" by code_simp
  then have b3: "Submission_deserialize demo_hashing (read_file ?B ?n (world ?e1)) = Inr ?d1"
    by (simp add: b1)
  have b4: "Submission_eq demo_hashing demo_generated ?d1" by code_simp
  have b5: "submission_hash demo_generated = get_hash demo_hashing demo_generated"
    by code_simp
  have b6: "map (\<lambda>jd. snd (snd (snd (hd jd)))) (snd (snd (snd (snd demo_snapshot))))
      = [Some (StatusStr ''JobStatus.running'', ''42'', 1),
         Some (StatusStr ''JobStatus.running'', ''42'', 1)]"
    by code_simp
  have c0: "check_file_exists ?B ?n (world ?e2)" by code_simp
  have c1: "read_file ?B ?n (world ?e2) = demo_other_snapshot" by code_simp
  have c2: "\<not> isl (Submission_deserialize demo_hashing demo_other_snapshot)" by code_simp
  then have c3: "Submission_deserialize demo_hashing (read_file ?B ?n (world ?e2)) = Inr ?d2"
    by (simp add: c1)
  have c4: "\<not> Submission_eq demo_hashing demo_generated ?d2" by code_simp
  note ta = try_recover_from_json_cases
    [where B = ?B and H = demo_hashing and s = demo_generated and e = demo_env,
      THEN conjunct1, rule_format, OF a0]
  note tb = try_recover_from_json_cases
    [where B = ?B and H = demo_hashing and s = demo_generated and e = ?e1 and d = ?d1,
      THEN conjunct2, THEN conjunct1, rule_format, OF conjI [OF b0 conjI [OF b3 b4]]]
  note tc = try_recover_from_json_cases
    [where B = ?B and H = demo_hashing and s = demo_generated and e = ?e2 and d = ?d2,
      THEN conjunct2, THEN conjunct2, rule_format, OF conjI [OF c0 conjI [OF c3 c4]]]
  from tb obtain s' e' where
    r: "try_recover_from_json ?B demo_hashing demo_generated ?e1 = Inr (s', e')"
    and m: "map (\<lambda>j. Some (job_state j, job_id j, fail_count j)) (belonging_jobs s')
             = map (\<lambda>jd. snd (snd (snd (hd jd))))
                 (snd (snd (snd (snd (read_file ?B ?n (world ?e1))))))"
    and h: "submission_hash demo_generated = get_hash demo_hashing demo_generated
             \<longrightarrow> submission_hash s' = submission_hash demo_generated"
    and t: "belonging_tasks s' = belonging_tasks demo_generated"
    by blast
  have m': "map (\<lambda>j. Some (job_state j, job_id j, fail_count j)) (belonging_jobs s')
             = [Some (StatusStr ''JobStatus.running'', ''42'', 1),
                Some (StatusStr ''JobStatus.running'', ''42'', 1)]"
    using m by (simp only: b1 b6)
  have h': "submission_hash s' = submission_hash demo_generated" using h b5 by blast
  have pb: "\<exists>s' e'. try_recover_from_json ?B demo_hashing demo_generated ?e1
          = Inr (s', e')
         \<and> map (\<lambda>j. Some (job_state j, job_id j, fail_count j)) (belonging_jobs s')
             = [Some (StatusStr ''JobStatus.running'', ''42'', 1),
                Some (StatusStr ''JobStatus.running'', ''42'', 1)]
         \<and> submission_hash s' = submission_hash demo_generated
         \<and> belonging_tasks s' = belonging_tasks demo_generated"
    apply (rule exI [of _ s'])
    apply (rule exI [of _ e'])
    apply (intro conjI)
    apply (rule r)
    apply (rule m')
    apply (rule h')
    apply (rule t)
    done
  from tc have pc: "\<exists>e'. try_recover_from_json ?B demo_hashing demo_generated ?e2
          = Inl (RuntimeError ''Recover failed.'', demo_generated, e')"
    by blast
  show ?thesis using a0 ta b0 b4 pb c0 c4 pc by (intro conjI)
qed

end
